theory Spec2Isabelle
  imports Main "HOL-Library.AList"
begin

section \<open>Values, errors and effects\<close>

text \<open>
  The service is JavaScript: every function may throw, and every function may change the
  process state (the emails table, the log, the scheduler's map, the host's timers,
  the delayed-job queue). A function of the source is modelled as a function from the
  state to an outcome and the state it leaves behind; a thrown error keeps the state
  changes made before the throw. The body of an asynchronous function is modelled as
  running to completion: what other functions do between its awaits is not modelled.
  A caller that awaits it sees the outcome of the body; a caller that does not await it
  gets a promise. Times are integers (milliseconds), the current time is the field
  \<open>clock\<close> of the state.
\<close>

datatype js_error =
  Error (message: string) (statusCode: "nat option") (code: "string option")
        (response_message: "string option")

text \<open>\<^verbatim>\<open>new Error(msg)\<close>: no status code, no error code, no response body.\<close>

definition new_Error :: "string \<Rightarrow> js_error" where
  "new_Error msg = Error msg None None None"

datatype 'a outcome = Return 'a | Throw js_error

text \<open>What a call that is not awaited hands back: a plain value, or the promise of an
  asynchronous function, settled with the outcome of its body (\<open>Return ()\<close>: fulfilled,
  \<open>Throw e\<close>: rejected with \<open>e\<close>).\<close>

datatype js_value = Undefined | Promise "unit outcome"

text \<open>A string-valued expression that may be \<^verbatim>\<open>undefined\<close>/\<^verbatim>\<open>null\<close>
  is a \<open>string option\<close>; the empty string and \<open>None\<close> are the falsy ones.\<close>

fun truthy :: "string option \<Rightarrow> bool" where
  "truthy None = False"
| "truthy (Some s) = (s \<noteq> [])"

text \<open>\<^verbatim>\<open>a || b\<close> with \<open>b\<close> a string.\<close>

definition js_or :: "string option \<Rightarrow> string \<Rightarrow> string" where
  "js_or a b = (case a of None \<Rightarrow> b | Some s \<Rightarrow> if s \<noteq> [] then s else b)"

datatype email_status = PENDING | SENT | FAILED

record email =
  to :: string
  subject :: string
  body :: string
  scheduledAt :: int
  status :: email_status
  failureReason :: "string option"
  jobId :: "string option"

record mail =
  mail_to :: string
  mail_from :: string
  mail_subject :: string
  mail_text :: string
  mail_html :: string

datatype log_level = INFO | WARN | ERROR

datatype job_state = waiting | delayed | active | completed | failed | unknown

record bull_job =
  job_name :: string
  job_data :: "(string \<times> string) list"
  job_delay :: int
  job_state :: job_state

text \<open>An entry of \<^verbatim>\<open>InMemoryScheduler.jobs\<close>:
  \<^verbatim>\<open>{ timeout, jobData, callback, scheduledAt }\<close>. The timeout is the handle
  \<^verbatim>\<open>setTimeout\<close> returned; the callback is kept as data of type \<open>'cb\<close> and is
  run by an interpreter given to the firing function.\<close>

record 'cb job =
  timeout :: nat
  jobData :: "(string \<times> string) list"
  callback :: 'cb
  job_scheduledAt :: int

text \<open>A timer armed in the host runtime by \<^verbatim>\<open>setTimeout(fn, delay)\<close>: the delay it
  was armed with and what the closure \<open>fn\<close> of \<^verbatim>\<open>schedule\<close> captured.\<close>

record 'cb pending_timer =
  t_jobId :: string
  t_callback :: 'cb
  t_jobData :: "(string \<times> string) list"
  t_delay :: int

text \<open>
  The process state. The three scripts are the environment: each call to the emails
  table, to the SendGrid client and to Redis/BullMQ consumes the head of its script;
  \<open>None\<close> lets the call succeed, \<open>Some e\<close> makes it throw \<open>e\<close>; an exhausted script
  means the call succeeds. \<open>unhandled\<close> collects the rejections of promises that
  nobody handles, which the host runtime reports as unhandled rejections.
\<close>

record 'cb world =
  clock :: int
  redis_enabled :: bool
  sendgrid_from :: "string option"
  emails :: "string \<rightharpoonup> email"
  db_script :: "js_error option list"
  sg_script :: "js_error option list"
  outbox :: "mail list"
  log :: "(log_level \<times> string) list"
  jobs :: "(string \<times> 'cb job) list"
  timers :: "(nat \<times> 'cb pending_timer) list"
  next_timer :: nat
  emailQueue :: bool
  redis_ready :: bool
  queue_jobs :: "string \<rightharpoonup> bull_job"
  redis_script :: "js_error option list"
  unhandled :: "js_error list"

type_synonym ('a, 'cb) js = "'cb world \<Rightarrow> 'a outcome \<times> 'cb world"

definition js_return :: "'a \<Rightarrow> ('a, 'cb) js" where
  "js_return x w = (Return x, w)"

definition js_throw :: "js_error \<Rightarrow> ('a, 'cb) js" where
  "js_throw e w = (Throw e, w)"

definition js_bind :: "('a, 'cb) js \<Rightarrow> ('a \<Rightarrow> ('b, 'cb) js) \<Rightarrow> ('b, 'cb) js" where
  "js_bind m f w = (case m w of (Return x, w') \<Rightarrow> f x w' | (Throw e, w') \<Rightarrow> (Throw e, w'))"

text \<open>\<^verbatim>\<open>try { body } catch (error) { handler }\<close>\<close>

definition js_try :: "('a, 'cb) js \<Rightarrow> (js_error \<Rightarrow> ('a, 'cb) js) \<Rightarrow> ('a, 'cb) js" where
  "js_try blk handler w =
     (case blk w of (Return x, w') \<Rightarrow> (Return x, w') | (Throw e, w') \<Rightarrow> handler e w')"

text \<open>Calling an asynchronous function without awaiting it: the call itself never
  throws, and the promise it hands back carries the outcome of the body.\<close>

definition js_async :: "(unit, 'cb) js \<Rightarrow> (js_value, 'cb) js" where
  "js_async blk w = (case blk w of (r, w') \<Rightarrow> (Return (Promise r), w'))"

text \<open>A value that is dropped. When it is a rejected promise, no handler was attached
  to it, and the host reports the rejection as unhandled.\<close>

definition drop_value :: "js_value option \<Rightarrow> (unit, 'cb) js" where
  "drop_value v w =
     (case v of
        Some (Promise (Throw e)) \<Rightarrow> (Return (), w\<lparr>unhandled := unhandled w @ [e]\<rparr>)
      | _ \<Rightarrow> (Return (), w))"

definition logger :: "log_level \<Rightarrow> string \<Rightarrow> (unit, 'cb) js" where
  "logger lvl msg w = (Return (), w\<lparr>log := log w @ [(lvl, msg)]\<rparr>)"

section \<open>The emails table and the outbound transport\<close>

text \<open>Modelled from the spec: the message store is an external collaborator offering
  get-by-id and update; it may be unavailable, and then the call throws. \<open>db_call\<close>
  is one round trip to it.\<close>

definition db_call :: "(unit, 'cb) js" where
  "db_call w =
     (case db_script w of
        [] \<Rightarrow> (Return (), w)
      | None # rest \<Rightarrow> (Return (), w\<lparr>db_script := rest\<rparr>)
      | Some e # rest \<Rightarrow> (Throw e, w\<lparr>db_script := rest\<rparr>))"

text \<open>\<^verbatim>\<open>Email.findByPk(id)\<close>\<close>

definition findByPk :: "string \<Rightarrow> (email option, 'cb) js" where
  "findByPk i = js_bind db_call (\<lambda>_ w. (Return (emails w i), w))"

text \<open>\<^verbatim>\<open>email.update(fields)\<close> on the instance loaded under key \<open>i\<close>: the
  fields are written to the row of that key.\<close>

definition email_update :: "string \<Rightarrow> (email \<Rightarrow> email) \<Rightarrow> (unit, 'cb) js" where
  "email_update i f =
     js_bind db_call (\<lambda>_ w.
       (Return (),
        w\<lparr>emails := (case emails w i of None \<Rightarrow> emails w | Some e \<Rightarrow> (emails w)(i \<mapsto> f e))\<rparr>))"

text \<open>Modelled from the spec: the outbound transport is an external send call that
  succeeds or throws; the message handed to it is kept in \<open>outbox\<close>.\<close>

definition sg_call :: "mail \<Rightarrow> (unit, 'cb) js" where
  "sg_call m w =
     (let w1 = w\<lparr>outbox := outbox w @ [m]\<rparr> in
      case sg_script w of
        [] \<Rightarrow> (Return (), w1)
      | None # rest \<Rightarrow> (Return (), w1\<lparr>sg_script := rest\<rparr>)
      | Some e # rest \<Rightarrow> (Throw e, w1\<lparr>sg_script := rest\<rparr>))"

record send_result =
  success :: bool
  error :: "string option"

text \<open>\<^verbatim>\<open>sendEmail({ to, subject, body })\<close> of config/sendgrid.js\<close>

definition sendEmail :: "string \<Rightarrow> string \<Rightarrow> string \<Rightarrow> (send_result, 'cb) js" where
  "sendEmail t s b =
     js_try
       (\<lambda>w. js_bind
          (sg_call \<lparr>mail_to = t,
                    mail_from = js_or (sendgrid_from w) ''noreply@example.com'',
                    mail_subject = s, mail_text = b, mail_html = b\<rparr>)
          (\<lambda>_. js_return \<lparr>success = True, error = None\<rparr>) w)
       (\<lambda>err. js_return
          \<lparr>success = False, error = Some (js_or (response_message err) (message err))\<rparr>)"

section \<open>The email service\<close>

definition getEmailById :: "string \<Rightarrow> (email, 'cb) js" where
  "getEmailById i =
     js_try
       (js_bind (findByPk i) (\<lambda>found.
          case found of
            None \<Rightarrow> js_throw (Error ''Email not found'' (Some 404) None None)
          | Some e \<Rightarrow> js_return e))
       (\<lambda>err. js_bind (logger ERROR ''Error getting email:'') (\<lambda>_. js_throw err))"

definition markEmailAsSent :: "string \<Rightarrow> (unit, 'cb) js" where
  "markEmailAsSent i =
     js_try
       (js_bind (findByPk i) (\<lambda>found.
          case found of
            None \<Rightarrow> js_return ()
          | Some _ \<Rightarrow>
              js_bind (email_update i (\<lambda>e. e\<lparr>status := SENT, failureReason := None\<rparr>)) (\<lambda>_.
                logger INFO (''Email marked as sent: '' @ i))))
       (\<lambda>err. js_bind (logger ERROR ''Error marking email as sent:'') (\<lambda>_. js_throw err))"

definition markEmailAsFailed :: "string \<Rightarrow> string \<Rightarrow> (unit, 'cb) js" where
  "markEmailAsFailed i reason =
     js_try
       (js_bind (findByPk i) (\<lambda>found.
          case found of
            None \<Rightarrow> js_return ()
          | Some _ \<Rightarrow>
              js_bind (email_update i (\<lambda>e. e\<lparr>status := FAILED, failureReason := Some reason\<rparr>)) (\<lambda>_.
                logger ERROR (''Email marked as failed: '' @ i))))
       (\<lambda>err. js_bind (logger ERROR ''Error marking email as failed:'') (\<lambda>_. js_throw err))"

section \<open>The delivery pipeline\<close>

text \<open>The body of the \<^verbatim>\<open>try\<close> block of \<^verbatim>\<open>processEmail\<close>.\<close>

definition processEmail_try :: "string \<Rightarrow> (unit, 'cb) js" where
  "processEmail_try emailId =
     js_bind (getEmailById emailId) (\<lambda>email.
       if status email \<noteq> PENDING then
         logger INFO (''Email '' @ emailId @ '' is no longer pending, skipping'')
       else
         js_bind (sendEmail (to email) (subject email) (body email)) (\<lambda>result.
           if success result then
             js_bind (markEmailAsSent emailId) (\<lambda>_.
               logger INFO (''Email sent successfully: '' @ emailId))
           else
             js_bind (markEmailAsFailed emailId (js_or (error result) ''Unknown error'')) (\<lambda>_.
               logger ERROR (''Email sending failed: '' @ emailId))))"

definition processEmail :: "string \<Rightarrow> (unit, 'cb) js" where
  "processEmail emailId =
     js_bind (logger INFO (''Processing email job: '' @ emailId)) (\<lambda>_.
       js_try (processEmail_try emailId)
         (\<lambda>err.
            js_bind (logger ERROR (''Error processing email job: '' @ emailId)) (\<lambda>_.
              js_try (markEmailAsFailed emailId (message err))
                (\<lambda>markError. logger ERROR (''Error marking email as failed: '' @ emailId)))))"

section \<open>The in-memory scheduler\<close>

text \<open>Modelled from the spec: the host's single-fire timers.
  \<^verbatim>\<open>setTimeout\<close> arms a timer under a fresh handle,
  \<^verbatim>\<open>clearTimeout\<close> disarms the timer of a handle (and does nothing for a handle no
  longer armed).\<close>

definition setTimeout :: "'cb pending_timer \<Rightarrow> (nat, 'cb) js" where
  "setTimeout t w =
     (Return (next_timer w),
      w\<lparr>timers := AList.update (next_timer w) t (timers w), next_timer := Suc (next_timer w)\<rparr>)"

definition clearTimeout :: "nat \<Rightarrow> (unit, 'cb) js" where
  "clearTimeout h w = (Return (), w\<lparr>timers := AList.delete h (timers w)\<rparr>)"

text \<open>\<^verbatim>\<open>this.jobs.set(k, v)\<close> and \<^verbatim>\<open>this.jobs.delete(k)\<close> on the
  insertion-ordered Map.\<close>

definition jobs_set :: "string \<Rightarrow> 'cb job \<Rightarrow> (unit, 'cb) js" where
  "jobs_set k v w = (Return (), w\<lparr>jobs := AList.update k v (jobs w)\<rparr>)"

definition jobs_delete :: "string \<Rightarrow> (unit, 'cb) js" where
  "jobs_delete k w = (Return (), w\<lparr>jobs := AList.delete k (jobs w)\<rparr>)"

definition cancel :: "string \<Rightarrow> (bool, 'cb) js" where
  "cancel jid w =
     (case map_of (jobs w) jid of
        Some job \<Rightarrow>
          js_bind (clearTimeout (timeout job)) (\<lambda>_.
          js_bind (jobs_delete jid) (\<lambda>_.
          js_bind (logger INFO (''Cancelled in-memory job: '' @ jid)) (\<lambda>_.
          js_return True))) w
      | None \<Rightarrow> js_return False w)"

definition schedule ::
  "string \<Rightarrow> int \<Rightarrow> 'cb \<Rightarrow> (string \<times> string) list \<Rightarrow> (string, 'cb) js" where
  "schedule jid at cb data =
     js_bind (cancel jid) (\<lambda>_ w.
       let delay = at - clock w in
       if delay \<le> 0 then js_throw (new_Error ''Scheduled time must be in the future'') w
       else
         js_bind (logger INFO (''Scheduling in-memory job: '' @ jid)) (\<lambda>_.
         js_bind (setTimeout \<lparr>t_jobId = jid, t_callback = cb, t_jobData = data, t_delay = delay\<rparr>)
           (\<lambda>h.
         js_bind (jobs_set jid \<lparr>timeout = h, jobData = data, callback = cb, job_scheduledAt = at\<rparr>)
           (\<lambda>_.
         js_return jid))) w)"

definition reschedule ::
  "string \<Rightarrow> int \<Rightarrow> 'cb \<Rightarrow> (string \<times> string) list \<Rightarrow> (string, 'cb) js" where
  "reschedule jid at cb data = js_bind (cancel jid) (\<lambda>_. schedule jid at cb data)"

definition clear :: "(unit, 'cb) js" where
  "clear =
     js_bind (\<lambda>w. (Return (),
                   w\<lparr>timers := fold (\<lambda>(jid, job). AList.delete (timeout job)) (jobs w) (timers w)\<rparr>))
       (\<lambda>_.
     js_bind (\<lambda>w. (Return (), w\<lparr>jobs := []\<rparr>)) (\<lambda>_.
     logger INFO ''Cleared all in-memory jobs''))"

text \<open>The function handed to \<^verbatim>\<open>setTimeout\<close> by \<^verbatim>\<open>schedule\<close>; \<open>run\<close>
  interprets the stored callback. The callback is called inside \<^verbatim>\<open>try\<close> and is
  not awaited: the \<^verbatim>\<open>catch\<close> sees what the call itself throws, and the value the
  call hands back is dropped.\<close>

definition timer_fn ::
  "('cb \<Rightarrow> (string \<times> string) list \<Rightarrow> (js_value, 'cb) js) \<Rightarrow> 'cb pending_timer \<Rightarrow>
     (unit, 'cb) js"
  where
  "timer_fn run t =
     js_bind (logger INFO (''Executing in-memory job: '' @ t_jobId t)) (\<lambda>_.
     js_bind
       (js_try (js_bind (run (t_callback t) (t_jobData t)) (\<lambda>v. js_return (Some v)))
          (\<lambda>err.
             js_bind (logger ERROR (''Error executing in-memory job: '' @ t_jobId t)) (\<lambda>_.
             js_return None)))
       (\<lambda>v.
     js_bind (jobs_delete (t_jobId t)) (\<lambda>_.
     drop_value v)))"

text \<open>The host fires the armed timer of handle \<open>h\<close>: the timer is single-fire, so it
  leaves the host's table, and its function runs.\<close>

definition fire ::
  "('cb \<Rightarrow> (string \<times> string) list \<Rightarrow> (js_value, 'cb) js) \<Rightarrow> nat \<Rightarrow> (unit, 'cb) js" where
  "fire run h w =
     (case map_of (timers w) h of
        None \<Rightarrow> (Return (), w)
      | Some t \<Rightarrow> timer_fn run t (w\<lparr>timers := AList.delete h (timers w)\<rparr>))"

section \<open>The delayed-job queue\<close>

definition redis_call :: "(unit, 'cb) js" where
  "redis_call w =
     (case redis_script w of
        [] \<Rightarrow> (Return (), w)
      | None # rest \<Rightarrow> (Return (), w\<lparr>redis_script := rest\<rparr>)
      | Some e # rest \<Rightarrow> (Throw e, w\<lparr>redis_script := rest\<rparr>))"

text \<open>\<^verbatim>\<open>getRedisClient\<close> of config/redis.js\<close>

definition getRedisClient :: "(unit, 'cb) js" where
  "getRedisClient w =
     (if redis_ready w then (Return (), w)
      else
        js_try (js_bind redis_call (\<lambda>_ w'. (Return (), w'\<lparr>redis_ready := True\<rparr>)))
          (\<lambda>err.
             if code err = Some ''ECONNREFUSED'' then
               js_throw (new_Error
                 (''Redis is not running. Please start Redis server or set REDIS_ENABLED=false'' @
                  '' in .env to disable Redis (email scheduling will not work).''))
             else js_throw err) w)"

text \<open>
  Modelled from the spec: the external delayed-job queue, with the operations the spec
  lists: add-with-delay under an explicit id, get-job by id, remove, and a state query.
  Each is a network call that may throw. Adding under an id that is already present
  leaves the queue as it is and returns the job of that id.
\<close>

definition queue_add ::
  "string \<Rightarrow> (string \<times> string) list \<Rightarrow> int \<Rightarrow> string \<Rightarrow> (string, 'cb) js" where
  "queue_add name data delay jid =
     js_bind redis_call (\<lambda>_ w.
       (case queue_jobs w jid of
          Some _ \<Rightarrow> (Return jid, w)
        | None \<Rightarrow>
            (Return jid,
             w\<lparr>queue_jobs := (queue_jobs w)
                  (jid \<mapsto> \<lparr>job_name = name, job_data = data, job_delay = delay,
                           job_state = delayed\<rparr>)\<rparr>)))"

definition queue_getJob :: "string \<Rightarrow> (bull_job option, 'cb) js" where
  "queue_getJob jid = js_bind redis_call (\<lambda>_ w. (Return (queue_jobs w jid), w))"

definition job_remove :: "string \<Rightarrow> (unit, 'cb) js" where
  "job_remove jid = js_bind redis_call (\<lambda>_ w. (Return (), w\<lparr>queue_jobs := (queue_jobs w)(jid := None)\<rparr>))"

definition job_getState :: "string \<Rightarrow> (job_state, 'cb) js" where
  "job_getState jid =
     js_bind redis_call (\<lambda>_ w.
       (Return (case queue_jobs w jid of None \<Rightarrow> unknown | Some j \<Rightarrow> job_state j), w))"

section \<open>The scheduling facade (email.queue.js)\<close>

text \<open>The callbacks the facade hands to the in-memory scheduler are all of the form
  \<^verbatim>\<open>async () => { await processEmail(id); }\<close>.\<close>

datatype callback = ProcessEmailCb string

fun run_callback :: "callback \<Rightarrow> (string \<times> string) list \<Rightarrow> (js_value, callback) js" where
  "run_callback (ProcessEmailCb i) data = js_async (processEmail i)"

text \<open>\<^verbatim>\<open>getEmailQueue\<close> returns \<^verbatim>\<open>null\<close> (here \<open>False\<close>) in in-memory mode and
  the queue otherwise, creating it on first use.\<close>

definition getEmailQueue :: "(bool, 'cb) js" where
  "getEmailQueue w =
     (if \<not> redis_enabled w then
        js_bind (logger INFO ''Using in-memory scheduler (Redis disabled)'') (\<lambda>_. js_return False) w
      else
        js_bind
          (if \<not> emailQueue w then
             js_try
               (js_bind getRedisClient (\<lambda>_.
                js_bind (\<lambda>w'. (Return (), w'\<lparr>emailQueue := True\<rparr>)) (\<lambda>_.
                logger INFO ''Using BullMQ with Redis for email scheduling'')))
               (\<lambda>err.
                  js_bind (logger ERROR ''Failed to create email queue:'') (\<lambda>_.
                  js_throw (new_Error
                    (''Redis connection failed: '' @ message err @
                     ''. Please ensure Redis is running or set REDIS_ENABLED=false in .env''))))
           else js_return ())
          (\<lambda>_. js_return True) w)"

definition addEmailJob :: "string \<Rightarrow> int \<Rightarrow> (string, callback) js" where
  "addEmailJob emailId at =
     js_try
       (\<lambda>w.
          if \<not> redis_enabled w then
            js_bind (logger INFO (''Scheduling email with in-memory scheduler: '' @ emailId)) (\<lambda>_.
            js_bind (schedule emailId at (ProcessEmailCb emailId) [(''emailId'', emailId)]) (\<lambda>_.
            js_return emailId)) w
          else
            js_bind getEmailQueue (\<lambda>queue w'.
              let delay = at - clock w' in
              if delay \<le> 0 then js_throw (new_Error ''Scheduled time must be in the future'') w'
              else queue_add ''send-email'' [(''emailId'', emailId)] delay emailId w') w)
       (\<lambda>err. js_bind (logger ERROR ''Failed to add email job:'') (\<lambda>_. js_throw err))"

definition removeEmailJob :: "string \<Rightarrow> (unit, callback) js" where
  "removeEmailJob jid =
     js_try
       (\<lambda>w.
          if \<not> redis_enabled w then js_bind (cancel jid) (\<lambda>_. js_return ()) w
          else if emailQueue w then
            js_bind (queue_getJob jid) (\<lambda>job.
              case job of Some _ \<Rightarrow> job_remove jid | None \<Rightarrow> js_return ()) w
          else js_return () w)
       (\<lambda>err. logger ERROR ''Failed to remove email job:'')"

definition rescheduleEmailJob :: "string \<Rightarrow> int \<Rightarrow> (string, callback) js" where
  "rescheduleEmailJob jid newAt =
     js_try
       (\<lambda>w.
          if \<not> redis_enabled w then
            js_bind (logger INFO (''Rescheduling in-memory job: '' @ jid)) (\<lambda>_.
            js_bind (reschedule jid newAt (ProcessEmailCb jid) [(''emailId'', jid)]) (\<lambda>_.
            js_return jid)) w
          else
            js_bind getEmailQueue (\<lambda>queue w'.
              let newDelay = newAt - clock w' in
              if newDelay \<le> 0 then
                js_throw (new_Error ''Scheduled time must be in the future'') w'
              else
                js_bind (queue_getJob jid) (\<lambda>existingJob.
                  case existingJob of
                    None \<Rightarrow>
                      js_bind (logger WARN (''Job '' @ jid @ '' not found in queue, creating new job''))
                        (\<lambda>_. queue_add ''send-email'' [(''emailId'', jid)] newDelay jid)
                  | Some _ \<Rightarrow>
                      js_bind (job_getState jid) (\<lambda>state.
                        if state = completed then
                          js_throw (new_Error
                            ''Cannot reschedule a job that has already been completed'')
                        else if state = active then
                          js_throw (new_Error
                            ''Cannot reschedule a job that is currently being processed'')
                        else
                          js_bind (job_remove jid) (\<lambda>_.
                          js_bind (queue_add ''send-email'' [(''emailId'', jid)] newDelay jid)
                            (\<lambda>rescheduledId.
                          js_bind (logger INFO (''Job rescheduled successfully: '' @ jid)) (\<lambda>_.
                          js_return rescheduledId))))) w') w)
       (\<lambda>err. js_bind (logger ERROR ''Failed to reschedule email job:'') (\<lambda>_. js_throw err))"

section \<open>Updating an email (email.service.js)\<close>

text \<open>The validated request body of an update: every field is optional; \<open>upd_jobId\<close>
  is the field \<^verbatim>\<open>updateEmail\<close> itself adds.\<close>

record update_data =
  upd_to :: "string option"
  upd_subject :: "string option"
  upd_body :: "string option"
  upd_scheduledAt :: "int option"
  upd_jobId :: "string option"



section \<open>Predicates used by the properties\<close>

text \<open>A script that lets every call succeed.\<close>

definition quiet :: "js_error option list \<Rightarrow> bool" where
  "quiet s = list_all (\<lambda>x. x = None) s"

text \<open>The next call to the emails table does not throw.\<close>

definition load_ok :: "'cb world \<Rightarrow> bool" where
  "load_ok w = (case db_script w of Some e # rest \<Rightarrow> False | _ \<Rightarrow> True)"

text \<open>
  The scheduler's map and the host's armed timers agree: keys are not repeated, every
  entry of the map names an armed timer that belongs to its job id, every armed timer is
  named by the map entry of its job id, and handles still to be issued are not in use.
\<close>

definition sched_inv :: "'cb world \<Rightarrow> bool" where
  "sched_inv w =
     (distinct (map fst (jobs w)) \<and> distinct (map fst (timers w)) \<and>
      list_all (\<lambda>(j, e). case map_of (timers w) (timeout e) of
                            None \<Rightarrow> False | Some t \<Rightarrow> t_jobId t = j) (jobs w) \<and>
      list_all (\<lambda>(h, t). (case map_of (jobs w) (t_jobId t) of
                             None \<Rightarrow> False | Some e \<Rightarrow> timeout e = h) \<and> h < next_timer w)
        (timers w))"

text \<open>The armed timers whose function was made for job id \<open>j\<close>.\<close>

definition armed_for :: "string \<Rightarrow> 'cb world \<Rightarrow> (nat \<times> 'cb pending_timer) list" where
  "armed_for j w = filter (\<lambda>(h, t). t_jobId t = j) (timers w)"

text \<open>A callback interpreter that leaves the scheduler's map and the host's timers
  alone, as \<^verbatim>\<open>processEmail\<close> does.\<close>

definition sched_frame ::
  "('cb \<Rightarrow> (string \<times> string) list \<Rightarrow> (js_value, 'cb) js) \<Rightarrow> bool" where
  "sched_frame run =
     (\<forall>cb d w. jobs (snd (run cb d w)) = jobs w \<and> timers (snd (run cb d w)) = timers w \<and>
               next_timer (snd (run cb d w)) = next_timer w)"

text \<open>A computation that leaves the scheduler's map and the host's timers alone.\<close>

definition keeps_sched :: "('a, 'cb) js \<Rightarrow> bool" where
  "keeps_sched m =
     (\<forall>w. jobs (snd (m w)) = jobs w \<and> timers (snd (m w)) = timers w \<and>
          next_timer (snd (m w)) = next_timer w)"

section \<open>Example states\<close>

definition example_email :: email where
  "example_email =
     \<lparr>to = ''rcpt@example.com'', subject = ''Hello'', body = ''Body text'', scheduledAt = 2000,
      status = PENDING, failureReason = None, jobId = Some ''e1''\<rparr>"

text \<open>In-memory mode, time 1000, nothing stored, nothing armed, no faults scripted.\<close>

definition world0 :: "callback world" where
  "world0 =
     \<lparr>clock = 1000, redis_enabled = False, sendgrid_from = None, emails = Map.empty,
      db_script = [], sg_script = [], outbox = [], log = [], jobs = [], timers = [],
      next_timer = 0, emailQueue = False, redis_ready = False, queue_jobs = Map.empty,
      redis_script = [], unhandled = []\<rparr>"

text \<open>One pending email \<open>e1\<close>.\<close>

definition world_pending :: "callback world" where
  "world_pending = world0\<lparr>emails := [''e1'' \<mapsto> example_email]\<rparr>"

text \<open>Email \<open>e1\<close> was sent already.\<close>

definition world_sent :: "callback world" where
  "world_sent = world0\<lparr>emails := [''e1'' \<mapsto> example_email\<lparr>status := SENT\<rparr>]\<rparr>"

definition example_timer :: "callback pending_timer" where
  "example_timer =
     \<lparr>t_jobId = ''e1'', t_callback = ProcessEmailCb ''e1'', t_jobData = [(''emailId'', ''e1'')],
      t_delay = 1000\<rparr>"

text \<open>Email \<open>e1\<close> is pending and its job is armed for time 2000 in the in-memory
  scheduler.\<close>

definition world_armed :: "callback world" where
  "world_armed =
     world_pending
       \<lparr>jobs := [(''e1'', \<lparr>timeout = 0, jobData = [(''emailId'', ''e1'')],
                         callback = ProcessEmailCb ''e1'', job_scheduledAt = 2000\<rparr>)],
        timers := [(0, example_timer)], next_timer := 1\<rparr>"

definition example_bull_job :: bull_job where
  "example_bull_job =
     \<lparr>job_name = ''send-email'', job_data = [(''emailId'', ''e1'')], job_delay = 1000,
      job_state = delayed\<rparr>"

text \<open>Distributed mode with the queue created: the job of \<open>e1\<close> is enqueued, delayed.\<close>

definition world_queued :: "callback world" where
  "world_queued =
     world_pending\<lparr>redis_enabled := True, emailQueue := True, redis_ready := True,
                   queue_jobs := [''e1'' \<mapsto> example_bull_job]\<rparr>"

text \<open>A request that moves the scheduled time to 3000.\<close>

definition example_update :: update_data where
  "example_update =
     \<lparr>upd_to = None, upd_subject = None, upd_body = None, upd_scheduledAt = Some 3000,
      upd_jobId = None\<rparr>"

text \<open>As \<open>world_queued\<close>, with the job of \<open>e1\<close> completed.\<close>

definition world_completed :: "callback world" where
  "world_completed =
     world_queued\<lparr>queue_jobs := [''e1'' \<mapsto> example_bull_job\<lparr>job_state := completed\<rparr>]\<rparr>"

section \<open>Basic facts\<close>

lemmas js_defs = js_return_def js_throw_def js_bind_def js_try_def logger_def

lemmas store_defs = findByPk_def email_update_def getEmailById_def markEmailAsSent_def
  markEmailAsFailed_def

lemmas pipeline_defs = processEmail_def processEmail_try_def sendEmail_def sg_call_def

lemmas example_defs = world0_def world_pending_def world_sent_def example_email_def
  example_timer_def world_armed_def example_bull_job_def world_queued_def
  example_update_def world_completed_def

lemma quiet_tl: "quiet s \<Longrightarrow> quiet (tl s)"
  by (cases s) (simp_all add: quiet_def)

lemma db_call_quiet:
  "quiet (db_script w) \<Longrightarrow> db_call w = (Return (), w\<lparr>db_script := tl (db_script w)\<rparr>)"
  by (cases w; cases "db_script w") (auto simp: db_call_def quiet_def)

lemma db_call_load_ok:
  "load_ok w \<Longrightarrow> db_call w = (Return (), w\<lparr>db_script := tl (db_script w)\<rparr>)"
  by (cases w; cases "db_script w") (auto simp: db_call_def load_ok_def split: option.splits)

lemma db_call_Some:
  "db_script w = Some e # rest \<Longrightarrow> db_call w = (Throw e, w\<lparr>db_script := rest\<rparr>)"
  by (simp add: db_call_def)

lemma db_call_None:
  "db_script w = None # rest \<Longrightarrow> db_call w = (Return (), w\<lparr>db_script := rest\<rparr>)"
  by (simp add: db_call_def)

lemma quiet_load_ok: "quiet (db_script w) \<Longrightarrow> load_ok w"
  by (cases "db_script w") (auto simp: quiet_def load_ok_def split: option.splits)

section \<open>Facts about the delivery pipeline\<close>

lemma processEmail_returns: "fst (processEmail i w) = Return ()"
  unfolding processEmail_def js_defs
  by (auto split: prod.splits outcome.splits)

lemma processEmail_not_pending:
  assumes "emails w i = Some m" "status m \<noteq> PENDING" "load_ok w"
  shows "processEmail i w =
    (Return (),
     w\<lparr>log := log w @ [(INFO, ''Processing email job: '' @ i),
                       (INFO, ''Email '' @ i @ '' is no longer pending, skipping'')],
       db_script := tl (db_script w)\<rparr>)"
  using assms
  by (simp add: processEmail_def processEmail_try_def store_defs js_defs db_call_load_ok
        load_ok_def)

lemma processEmail_absent:
  "quiet (db_script w) \<Longrightarrow> emails w i = None \<Longrightarrow>
     emails (snd (processEmail i w)) = emails w \<and> outbox (snd (processEmail i w)) = outbox w"
  by (simp add: processEmail_def processEmail_try_def store_defs js_defs db_call_quiet quiet_tl)

lemma processEmail_pending_sent:
  assumes "emails w i = Some m" "status m = PENDING" "quiet (db_script w)"
    and "sg_script w = [] \<or> hd (sg_script w) = None"
  shows "emails (snd (processEmail i w)) =
           (emails w)(i \<mapsto> m\<lparr>status := SENT, failureReason := None\<rparr>)"
    and "outbox (snd (processEmail i w)) =
           outbox w @ [\<lparr>mail_to = to m,
                        mail_from = js_or (sendgrid_from w) ''noreply@example.com'',
                        mail_subject = subject m, mail_text = body m, mail_html = body m\<rparr>]"
  using assms
  by (cases "sg_script w";
      simp add: pipeline_defs store_defs js_defs db_call_quiet quiet_tl)+

lemma processEmail_pending_failed:
  assumes "emails w i = Some m" "status m = PENDING" "quiet (db_script w)"
    and "sg_script w = Some e # rest"
  shows "emails (snd (processEmail i w)) =
           (emails w)(i \<mapsto> m\<lparr>status := FAILED,
              failureReason :=
                Some (js_or (Some (js_or (response_message e) (message e))) ''Unknown error'')\<rparr>)"
    and "outbox (snd (processEmail i w)) =
           outbox w @ [\<lparr>mail_to = to m,
                        mail_from = js_or (sendgrid_from w) ''noreply@example.com'',
                        mail_subject = subject m, mail_text = body m, mail_html = body m\<rparr>]"
  using assms
  by (simp add: pipeline_defs store_defs js_defs db_call_quiet quiet_tl)+

lemma processEmail_quiet:
  "quiet (db_script w) \<Longrightarrow> quiet (db_script (snd (processEmail i w)))"
  by (cases "emails w i"; cases "sg_script w"; cases "hd (sg_script w)")
     (auto simp: pipeline_defs store_defs js_defs db_call_quiet quiet_tl)

lemma processEmail_leaves_non_pending:
  assumes q: "quiet (db_script w)" and m1: "emails (snd (processEmail i w)) i = Some m1"
  shows "status m1 \<noteq> PENDING"
proof (cases "emails w i")
  case None
  then show ?thesis using processEmail_absent[OF q None] m1 by simp
next
  case (Some m)
  note m = this
  show ?thesis
  proof (cases "status m = PENDING")
    case False
    then show ?thesis
      using processEmail_not_pending[OF m False quiet_load_ok[OF q]] m1 m by simp
  next
    case True
    show ?thesis
    proof (cases "sg_script w")
      case Nil
      then show ?thesis using processEmail_pending_sent(1)[OF m True q] m1 by auto
    next
      case (Cons x rest)
      show ?thesis
      proof (cases x)
        case None
        then show ?thesis using processEmail_pending_sent(1)[OF m True q] Cons m1 by auto
      next
        case (Some e)
        then show ?thesis
          using processEmail_pending_failed(1)[OF m True q, of e rest] Cons m1 by auto
      qed
    qed
  qed
qed

lemma processEmail_twice:
  assumes q: "quiet (db_script w)"
  shows "emails (snd (processEmail i (snd (processEmail i w)))) = emails (snd (processEmail i w))
       \<and> outbox (snd (processEmail i (snd (processEmail i w)))) = outbox (snd (processEmail i w))"
proof -
  let ?w1 = "snd (processEmail i w)"
  have q1: "quiet (db_script ?w1)" using q by (rule processEmail_quiet)
  show ?thesis
  proof (cases "emails ?w1 i")
    case None
    then show ?thesis using processEmail_absent[OF q1] by simp
  next
    case (Some m1)
    have "status m1 \<noteq> PENDING" using processEmail_leaves_non_pending[OF q Some] .
    then show ?thesis
      using processEmail_not_pending[OF Some _ quiet_load_ok[OF q1]] by simp
  qed
qed

lemma processEmail_load_throws:
  assumes "db_script w = Some e # rest" "quiet rest" "emails w i = Some m"
  shows "emails (snd (processEmail i w)) =
           (emails w)(i \<mapsto> m\<lparr>status := FAILED, failureReason := Some (message e)\<rparr>)"
  using assms
  by (simp add: pipeline_defs store_defs js_defs db_call_Some db_call_None db_call_quiet quiet_tl)

lemma processEmail_mark_throws:
  assumes "db_script w = Some e # Some e2 # rest"
  shows "emails (snd (processEmail i w)) = emails w"
    and "log (snd (processEmail i w)) = log w @
       [(INFO, ''Processing email job: '' @ i), (ERROR, ''Error getting email:''),
        (ERROR, ''Error processing email job: '' @ i),
        (ERROR, ''Error marking email as failed:''),
        (ERROR, ''Error marking email as failed: '' @ i)]"
  using assms
  by (simp add: pipeline_defs store_defs js_defs db_call_Some)+

lemma processEmail_update_throws:
  assumes "db_script w = None # None # Some e # rest" "quiet rest" "emails w i = Some m"
     "status m = PENDING" "sg_script w = []"
  shows "emails (snd (processEmail i w)) =
           (emails w)(i \<mapsto> m\<lparr>status := FAILED, failureReason := Some (message e)\<rparr>)"
  using assms
  by (simp add: pipeline_defs store_defs js_defs db_call_Some db_call_None db_call_quiet quiet_tl)

section \<open>The timer function\<close>

lemma drop_value_returns: "fst (drop_value v w) = Return ()"
  by (simp add: drop_value_def split: option.splits js_value.splits outcome.splits)

lemma drop_value_frame:
  "jobs (snd (drop_value v w)) = jobs w \<and> timers (snd (drop_value v w)) = timers w \<and>
   next_timer (snd (drop_value v w)) = next_timer w \<and> log (snd (drop_value v w)) = log w"
  by (simp add: drop_value_def split: option.splits js_value.splits outcome.splits)

text \<open>What the call of the callback throws is caught and logged.\<close>

lemma timer_fn_callback_throws:
  assumes "run (t_callback t) (t_jobData t)
             (w\<lparr>log := log w @ [(INFO, ''Executing in-memory job: '' @ t_jobId t)]\<rparr>) = (Throw e, w')"
  shows "timer_fn run t w =
           (Return (),
            w'\<lparr>log := log w' @ [(ERROR, ''Error executing in-memory job: '' @ t_jobId t)],
               jobs := AList.delete (t_jobId t) (jobs w')\<rparr>)"
  using assms by (simp add: timer_fn_def js_defs jobs_delete_def drop_value_def)

text \<open>What the call hands back is dropped after the entry is removed.\<close>

lemma timer_fn_callback_returns:
  assumes "run (t_callback t) (t_jobData t)
             (w\<lparr>log := log w @ [(INFO, ''Executing in-memory job: '' @ t_jobId t)]\<rparr>) = (Return v, w')"
  shows "timer_fn run t w = drop_value (Some v) (w'\<lparr>jobs := AList.delete (t_jobId t) (jobs w')\<rparr>)"
  using assms by (simp add: timer_fn_def js_defs jobs_delete_def)

text \<open>A promise that rejects is not seen by the \<^verbatim>\<open>catch\<close>: nothing is logged and the
  rejection is left unhandled.\<close>

lemma timer_fn_callback_rejects:
  assumes "run (t_callback t) (t_jobData t)
             (w\<lparr>log := log w @ [(INFO, ''Executing in-memory job: '' @ t_jobId t)]\<rparr>) =
           (Return (Promise (Throw e)), w')"
  shows "timer_fn run t w =
           (Return (),
            w'\<lparr>jobs := AList.delete (t_jobId t) (jobs w'), unhandled := unhandled w' @ [e]\<rparr>)"
  using assms by (simp add: timer_fn_callback_returns drop_value_def)

lemma timer_fn_returns: "fst (timer_fn run t w) = Return ()"
proof -
  let ?w0 = "w\<lparr>log := log w @ [(INFO, ''Executing in-memory job: '' @ t_jobId t)]\<rparr>"
  obtain r w' where r: "run (t_callback t) (t_jobData t) ?w0 = (r, w')"
    by (cases "run (t_callback t) (t_jobData t) ?w0") auto
  show ?thesis
  proof (cases r)
    case (Return v)
    then show ?thesis using r by (simp add: timer_fn_callback_returns drop_value_returns)
  next
    case (Throw e)
    then show ?thesis using r by (simp add: timer_fn_callback_throws)
  qed
qed

lemma fire_returns: "fst (fire run h w) = Return ()"
  unfolding fire_def by (auto split: option.splits simp: timer_fn_returns)

text \<open>The callbacks the facade registers hand back a promise that is fulfilled: the
  call does not throw, and the promise does not reject, because \<open>processEmail\<close> returns
  normally.\<close>

lemma run_callback_fulfils: "fst (run_callback cb d w) = Return (Promise (Return ()))"
proof (cases cb)
  case (ProcessEmailCb i)
  obtain r w' where r: "processEmail i w = (r, w')" by (cases "processEmail i w") auto
  with processEmail_returns[of i w] have "r = Return ()" by simp
  then show ?thesis using r ProcessEmailCb by (simp add: js_async_def)
qed

section \<open>Claims about the delivery pipeline\<close>

text \<open>
  C1, as amended. When the load of the message succeeds and the loaded message is not
  Pending, \<open>processEmail\<close> returns without handing anything to the transport and leaves
  the emails table (so the status and the failure reason of every message) as it was.
  When the emails table raises no exception during two consecutive invocations for the
  same id, the second invocation changes neither the table nor the outbox.
\<close>

theorem processEmail_noop_when_loaded_not_pending:
  "(emails w i = Some m \<and> status m \<noteq> PENDING \<and> load_ok w \<longrightarrow>
      fst (processEmail i w) = Return () \<and>
      emails (snd (processEmail i w)) = emails w \<and>
      outbox (snd (processEmail i w)) = outbox w \<and>
      sg_script (snd (processEmail i w)) = sg_script w) \<and>
   (quiet (db_script w) \<longrightarrow>
      emails (snd (processEmail i (snd (processEmail i w)))) = emails (snd (processEmail i w)) \<and>
      outbox (snd (processEmail i (snd (processEmail i w)))) = outbox (snd (processEmail i w)))"
  using processEmail_not_pending[of w i m] processEmail_twice[of w i] by simp

theorem processEmail_noop_when_loaded_not_pending_witness:
  "emails world_sent ''e1'' = Some (example_email\<lparr>status := SENT\<rparr>) \<and>
   status (example_email\<lparr>status := SENT\<rparr>) \<noteq> PENDING \<and> load_ok world_sent \<and>
   quiet (db_script world_sent) \<and>
   fst (processEmail ''e1'' world_sent) = Return () \<and>
   emails (snd (processEmail ''e1'' world_sent)) = emails world_sent \<and>
   outbox (snd (processEmail ''e1'' world_sent)) = [] \<and>
   emails (snd (processEmail ''e1'' (snd (processEmail ''e1'' world_sent)))) = emails world_sent"
  using processEmail_noop_when_loaded_not_pending
          [of world_sent "''e1''" "example_email\<lparr>status := SENT\<rparr>"]
  by (simp add: example_defs load_ok_def quiet_def)

text \<open>
  C1 as stated fails. A message that is Sent is marked Failed when the load throws once
  and the table works again afterwards: the handler of \<open>processEmail\<close> marks the message
  Failed with the exception's message whatever its status. In the same way the second of
  two invocations turns a message that the first one marked Sent into a Failed one.
\<close>

theorem processEmail_changes_non_pending_counterexample:
  "map_option status
     (emails (world_sent\<lparr>db_script := [Some (new_Error ''db down'')]\<rparr>) ''e1'') = Some SENT \<and>
   map_option status
     (emails (snd (processEmail ''e1''
        (world_sent\<lparr>db_script := [Some (new_Error ''db down'')]\<rparr>))) ''e1'') = Some FAILED \<and>
   map_option failureReason
     (emails (snd (processEmail ''e1''
        (world_sent\<lparr>db_script := [Some (new_Error ''db down'')]\<rparr>))) ''e1'')
     = Some (Some ''db down'') \<and>
   map_option status
     (emails (snd (processEmail ''e1''
        (world_pending\<lparr>db_script := [None, None, None, Some (new_Error ''db down'')]\<rparr>))) ''e1'')
     = Some SENT \<and>
   map_option status
     (emails (snd (processEmail ''e1'' (snd (processEmail ''e1''
        (world_pending\<lparr>db_script := [None, None, None, Some (new_Error ''db down'')]\<rparr>))))) ''e1'')
     = Some FAILED"
  by (simp add: example_defs pipeline_defs store_defs js_defs db_call_def new_Error_def)

text \<open>
  C3. Processing a Pending message while the emails table raises no exception: when the
  transport call succeeds the message becomes Sent with no failure reason; when the
  transport call fails the message becomes Failed and its failure reason is the error
  text \<open>sendEmail\<close> reports (the message of the response body if there is one, the
  error's message otherwise), or \<open>Unknown error\<close> when that text is empty. No other
  row of the table changes.
\<close>

theorem processEmail_records_transport_outcome:
  "emails w i = Some m \<and> status m = PENDING \<and> quiet (db_script w) \<longrightarrow>
     (sg_script w = [] \<or> hd (sg_script w) = None \<longrightarrow>
        emails (snd (processEmail i w)) =
          (emails w)(i \<mapsto> m\<lparr>status := SENT, failureReason := None\<rparr>)) \<and>
     (sg_script w = Some e # rest \<longrightarrow>
        emails (snd (processEmail i w)) =
          (emails w)(i \<mapsto> m\<lparr>status := FAILED,
             failureReason :=
               Some (if js_or (response_message e) (message e) = [] then ''Unknown error''
                     else js_or (response_message e) (message e))\<rparr>))"
  using processEmail_pending_sent(1)[of w i m] processEmail_pending_failed(1)[of w i m e rest]
  by (auto simp: js_or_def)

theorem processEmail_records_transport_outcome_witness:
  "emails world_pending ''e1'' = Some example_email \<and> status example_email = PENDING \<and>
   quiet (db_script world_pending) \<and> sg_script world_pending = [] \<and>
   emails (snd (processEmail ''e1'' world_pending)) ''e1'' =
     Some (example_email\<lparr>status := SENT, failureReason := None\<rparr>) \<and>
   sg_script (world_pending\<lparr>sg_script := [Some (new_Error ''blocked'')]\<rparr>) =
     Some (new_Error ''blocked'') # [] \<and>
   emails (snd (processEmail ''e1''
       (world_pending\<lparr>sg_script := [Some (new_Error ''blocked'')]\<rparr>))) ''e1'' =
     Some (example_email\<lparr>status := FAILED, failureReason := Some ''blocked''\<rparr>) \<and>
   emails (snd (processEmail ''e1''
       (world_pending\<lparr>sg_script := [Some (new_Error [])]\<rparr>))) ''e1'' =
     Some (example_email\<lparr>status := FAILED, failureReason := Some ''Unknown error''\<rparr>)"
  using processEmail_records_transport_outcome
          [of world_pending "''e1''" example_email "new_Error ''blocked''" "[]"]
    processEmail_records_transport_outcome
          [of "world_pending\<lparr>sg_script := [Some (new_Error ''blocked'')]\<rparr>" "''e1''"
              example_email "new_Error ''blocked''" "[]"]
    processEmail_records_transport_outcome
          [of "world_pending\<lparr>sg_script := [Some (new_Error [])]\<rparr>" "''e1''" example_email
              "new_Error []" "[]"]
  by (simp add: example_defs quiet_def new_Error_def js_or_def)

text \<open>
  C4. The part of the property that is about the timer store fails on the code. The
  callback is called inside \<^verbatim>\<open>try\<close> without being awaited. A callback that is an
  asynchronous function fails by rejecting the promise it hands back, which the
  \<^verbatim>\<open>catch\<close> does not see: the store logs no error, and the rejection is left
  unhandled for the host runtime. Below, the timer function is run on such a callback;
  for comparison, on a callback that throws when it is called, the error is caught and
  logged.
\<close>

theorem timer_function_misses_rejected_callback:
  "timer_fn (\<lambda>cb d. js_async (js_throw (new_Error ''boom''))) example_timer world0 =
     (Return (),
      world0\<lparr>log := [(INFO, ''Executing in-memory job: e1'')],
             unhandled := [new_Error ''boom'']\<rparr>) \<and>
   timer_fn (\<lambda>cb d. js_throw (new_Error ''boom'')) example_timer world0 =
     (Return (),
      world0\<lparr>log := [(INFO, ''Executing in-memory job: e1''),
                      (ERROR, ''Error executing in-memory job: e1'')]\<rparr>)"
  by (simp add: timer_fn_def js_defs js_async_def jobs_delete_def drop_value_def example_defs)

text \<open>
  The part of C4 that is about the delivery pipeline holds. \<open>processEmail\<close> returns
  normally for every id and every state, whatever the emails table and the transport
  do. When the load throws and the table works afterwards, the message is marked Failed
  with the exception's message; the same happens when the status update after a
  successful send throws; when marking Failed throws as well, the second error is
  logged and the table is left as it was. The timer function itself returns normally
  for every callback, and the callbacks the facade registers never fail.
\<close>

lemma pipeline_never_throws:
  "fst (processEmail i w) = Return () \<and>
   (db_script w = Some e # rest \<and> quiet rest \<and> emails w i = Some m \<longrightarrow>
      emails (snd (processEmail i w)) =
        (emails w)(i \<mapsto> m\<lparr>status := FAILED, failureReason := Some (message e)\<rparr>)) \<and>
   (db_script w = None # None # Some e # rest \<and> quiet rest \<and> emails w i = Some m \<and>
    status m = PENDING \<and> sg_script w = [] \<longrightarrow>
      emails (snd (processEmail i w)) =
        (emails w)(i \<mapsto> m\<lparr>status := FAILED, failureReason := Some (message e)\<rparr>)) \<and>
   (db_script w = Some e # Some e2 # rest \<longrightarrow>
      emails (snd (processEmail i w)) = emails w \<and>
      (ERROR, ''Error marking email as failed: '' @ i) \<in> set (log (snd (processEmail i w)))) \<and>
   fst (timer_fn run t w) = Return () \<and>
   fst (fire run h w) = Return () \<and>
   fst (run_callback cb d v) = Return (Promise (Return ()))"
  using processEmail_returns[of i w] processEmail_load_throws[of w e rest i m]
    processEmail_update_throws[of w e rest i m] processEmail_mark_throws[of w e e2 rest i]
    timer_fn_returns[of run t w] fire_returns[of run h w] run_callback_fulfils[of cb d v]
  by simp

section \<open>The scheduler's map and the armed timers\<close>

lemma list_all_map_of:
  "distinct (map fst xs) \<Longrightarrow>
     list_all (\<lambda>(k, v). P k v) xs \<longleftrightarrow> (\<forall>k v. map_of xs k = Some v \<longrightarrow> P k v)"
  by (auto simp: list_all_iff)

lemma case_option_False_iff:
  "(case x of None \<Rightarrow> False | Some t \<Rightarrow> Q t) \<longleftrightarrow> (\<exists>t. x = Some t \<and> Q t)"
  by (cases x) auto

lemma sched_inv_iff:
  "sched_inv w \<longleftrightarrow>
     distinct (map fst (jobs w)) \<and> distinct (map fst (timers w)) \<and>
     (\<forall>j e. map_of (jobs w) j = Some e \<longrightarrow>
        (\<exists>t. map_of (timers w) (timeout e) = Some t \<and> t_jobId t = j)) \<and>
     (\<forall>h t. map_of (timers w) h = Some t \<longrightarrow>
        (\<exists>e. map_of (jobs w) (t_jobId t) = Some e \<and> timeout e = h) \<and> h < next_timer w)"
proof (cases "distinct (map fst (jobs w)) \<and> distinct (map fst (timers w))")
  case False
  then show ?thesis by (auto simp: sched_inv_def)
next
  case True
  then show ?thesis
    unfolding sched_inv_def
    by (simp add: list_all_map_of case_option_False_iff)
qed



lemma agree_delete:
  fixes J :: "string \<rightharpoonup> 'cb job" and T :: "nat \<rightharpoonup> 'cb pending_timer"
  assumes A: "\<forall>j e. J j = Some e \<longrightarrow> (\<exists>t. T (timeout e) = Some t \<and> t_jobId t = j)"
      and B: "\<forall>h t. T h = Some t \<longrightarrow> (\<exists>e. J (t_jobId t) = Some e \<and> timeout e = h) \<and> h < n"
      and e: "J j = Some e"
  shows "\<forall>j' e'. (J(j := None)) j' = Some e' \<longrightarrow>
           (\<exists>t. (T(timeout e := None)) (timeout e') = Some t \<and> t_jobId t = j')"
    and "\<forall>h t. (T(timeout e := None)) h = Some t \<longrightarrow>
           (\<exists>e'. (J(j := None)) (t_jobId t) = Some e' \<and> timeout e' = h) \<and> h < n"
proof -
  show "\<forall>j' e'. (J(j := None)) j' = Some e' \<longrightarrow>
           (\<exists>t. (T(timeout e := None)) (timeout e') = Some t \<and> t_jobId t = j')"
  proof (intro allI impI)
    fix j' e'
    assume h: "(J(j := None)) j' = Some e'"
    then have ne: "j' \<noteq> j" and je: "J j' = Some e'" by (auto split: if_splits)
    from A je obtain t where t: "T (timeout e') = Some t" "t_jobId t = j'" by blast
    from A e obtain t2 where t2: "T (timeout e) = Some t2" "t_jobId t2 = j" by blast
    have "timeout e' \<noteq> timeout e" using t t2 ne by auto
    then show "\<exists>t. (T(timeout e := None)) (timeout e') = Some t \<and> t_jobId t = j'"
      using t by auto
  qed
  show "\<forall>h t. (T(timeout e := None)) h = Some t \<longrightarrow>
           (\<exists>e'. (J(j := None)) (t_jobId t) = Some e' \<and> timeout e' = h) \<and> h < n"
  proof (intro allI impI)
    fix h t
    assume "(T(timeout e := None)) h = Some t"
    then have ne: "h \<noteq> timeout e" and th: "T h = Some t" by (auto split: if_splits)
    from B th obtain e' where e': "J (t_jobId t) = Some e'" "timeout e' = h" "h < n" by blast
    have "t_jobId t \<noteq> j" using e' e ne by auto
    then show "(\<exists>e'. (J(j := None)) (t_jobId t) = Some e' \<and> timeout e' = h) \<and> h < n"
      using e' by auto
  qed
qed

lemma agree_add:
  fixes J :: "string \<rightharpoonup> 'cb job" and T :: "nat \<rightharpoonup> 'cb pending_timer"
  assumes A: "\<forall>j e. J j = Some e \<longrightarrow> (\<exists>t. T (timeout e) = Some t \<and> t_jobId t = j)"
      and B: "\<forall>h t. T h = Some t \<longrightarrow> (\<exists>e. J (t_jobId t) = Some e \<and> timeout e = h) \<and> h < n"
      and j: "J j = None" and t: "t_jobId t0 = j" and e: "timeout e0 = n"
  shows "\<forall>j' e'. (J(j \<mapsto> e0)) j' = Some e' \<longrightarrow>
           (\<exists>t. (T(n \<mapsto> t0)) (timeout e') = Some t \<and> t_jobId t = j')"
    and "\<forall>h t. (T(n \<mapsto> t0)) h = Some t \<longrightarrow>
           (\<exists>e'. (J(j \<mapsto> e0)) (t_jobId t) = Some e' \<and> timeout e' = h) \<and> h < Suc n"
proof -
  have fresh: "T n = None" using B by (cases "T n") auto
  show "\<forall>j' e'. (J(j \<mapsto> e0)) j' = Some e' \<longrightarrow>
           (\<exists>t. (T(n \<mapsto> t0)) (timeout e') = Some t \<and> t_jobId t = j')"
  proof (intro allI impI)
    fix j' e'
    assume h: "(J(j \<mapsto> e0)) j' = Some e'"
    show "\<exists>t. (T(n \<mapsto> t0)) (timeout e') = Some t \<and> t_jobId t = j'"
    proof (cases "j' = j")
      case True
      then show ?thesis using h t e by auto
    next
      case False
      then have "J j' = Some e'" using h by auto
      with A obtain t' where t': "T (timeout e') = Some t'" "t_jobId t' = j'" by blast
      then have "timeout e' \<noteq> n" using fresh by auto
      then show ?thesis using t' by auto
    qed
  qed
  show "\<forall>h t. (T(n \<mapsto> t0)) h = Some t \<longrightarrow>
           (\<exists>e'. (J(j \<mapsto> e0)) (t_jobId t) = Some e' \<and> timeout e' = h) \<and> h < Suc n"
  proof (intro allI impI)
    fix h t'
    assume h: "(T(n \<mapsto> t0)) h = Some t'"
    show "(\<exists>e'. (J(j \<mapsto> e0)) (t_jobId t') = Some e' \<and> timeout e' = h) \<and> h < Suc n"
    proof (cases "h = n")
      case True
      then show ?thesis using h t e by auto
    next
      case False
      then have th: "T h = Some t'" using h by auto
      with B obtain e' where e': "J (t_jobId t') = Some e'" "timeout e' = h" "h < n" by blast
      then have "t_jobId t' \<noteq> j" using j by auto
      then show ?thesis using e' by auto
    qed
  qed
qed

lemma sched_inv_frame:
  "jobs w' = jobs w \<Longrightarrow> timers w' = timers w \<Longrightarrow> next_timer w' = next_timer w \<Longrightarrow>
     sched_inv w' = sched_inv w"
  by (simp add: sched_inv_def)

lemmas sched_defs = setTimeout_def clearTimeout_def jobs_set_def jobs_delete_def

lemma cancel_absent: "map_of (jobs w) j = None \<Longrightarrow> cancel j w = (Return False, w)"
  by (simp add: cancel_def js_defs)

lemma cancel_present:
  "map_of (jobs w) j = Some e \<Longrightarrow>
     cancel j w =
       (Return True,
        w\<lparr>timers := AList.delete (timeout e) (timers w), jobs := AList.delete j (jobs w),
          log := log w @ [(INFO, ''Cancelled in-memory job: '' @ j)]\<rparr>)"
  by (simp add: cancel_def js_defs sched_defs)


lemma cancel_next_timer: "next_timer (snd (cancel j w)) = next_timer w"
  by (cases "map_of (jobs w) j") (simp_all add: cancel_absent cancel_present)

lemma cancel_jobs_lookup: "map_of (jobs (snd (cancel j w))) j = None"
  by (cases "map_of (jobs w) j") (simp_all add: cancel_absent cancel_present delete_conv')

lemma cancel_sched_inv:
  assumes inv: "sched_inv w"
  shows "sched_inv (snd (cancel j w))"
proof (cases "map_of (jobs w) j")
  case None
  then show ?thesis using inv by (simp add: cancel_absent)
next
  case (Some e)
  from inv[unfolded sched_inv_iff]
  have d: "distinct (map fst (jobs w))" "distinct (map fst (timers w))"
    and A: "\<forall>j e. map_of (jobs w) j = Some e \<longrightarrow>
              (\<exists>t. map_of (timers w) (timeout e) = Some t \<and> t_jobId t = j)"
    and B: "\<forall>h t. map_of (timers w) h = Some t \<longrightarrow>
              (\<exists>e. map_of (jobs w) (t_jobId t) = Some e \<and> timeout e = h) \<and> h < next_timer w"
    by blast+
  show ?thesis
    unfolding cancel_present[OF Some] sched_inv_iff
    using d agree_delete[OF A B Some]
    by (simp add: distinct_delete delete_conv')
qed

lemma schedule_past:
  assumes "at \<le> clock w"
  shows "schedule j at cb d w =
       (Throw (new_Error ''Scheduled time must be in the future''), snd (cancel j w))"
proof (cases "map_of (jobs w) j")
  case None
  then show ?thesis using assms by (simp add: schedule_def js_defs cancel_absent)
next
  case (Some e)
  then show ?thesis using assms by (simp add: schedule_def js_defs cancel_present)
qed

lemma schedule_future:
  assumes "clock w < at"
  shows "schedule j at cb d w =
       (Return j,
        (snd (cancel j w))
          \<lparr>log := log (snd (cancel j w)) @ [(INFO, ''Scheduling in-memory job: '' @ j)],
           timers := AList.update (next_timer w)
                       \<lparr>t_jobId = j, t_callback = cb, t_jobData = d, t_delay = at - clock w\<rparr>
                       (timers (snd (cancel j w))),
           next_timer := Suc (next_timer w),
           jobs := AList.update j
                     \<lparr>timeout = next_timer w, jobData = d, callback = cb, job_scheduledAt = at\<rparr>
                     (jobs (snd (cancel j w)))\<rparr>)"
proof (cases "map_of (jobs w) j")
  case None
  then show ?thesis using assms by (simp add: schedule_def js_defs cancel_absent sched_defs)
next
  case (Some e)
  then show ?thesis using assms by (simp add: schedule_def js_defs cancel_present sched_defs)
qed

lemma schedule_sched_inv:
  assumes inv: "sched_inv w"
  shows "sched_inv (snd (schedule j at cb d w))"
proof (cases "clock w < at")
  case False
  then show ?thesis using cancel_sched_inv[OF inv] by (simp add: schedule_past)
next
  case True
  let ?c = "snd (cancel j w)"
  from cancel_sched_inv[OF inv, of j, unfolded sched_inv_iff cancel_next_timer]
  have d: "distinct (map fst (jobs ?c))" "distinct (map fst (timers ?c))"
    and A: "\<forall>j e. map_of (jobs ?c) j = Some e \<longrightarrow>
              (\<exists>t. map_of (timers ?c) (timeout e) = Some t \<and> t_jobId t = j)"
    and B: "\<forall>h t. map_of (timers ?c) h = Some t \<longrightarrow>
              (\<exists>e. map_of (jobs ?c) (t_jobId t) = Some e \<and> timeout e = h) \<and> h < next_timer w"
    by blast+
  show ?thesis
    unfolding schedule_future[OF True] sched_inv_iff
    using d agree_add[OF A B cancel_jobs_lookup, of "\<lparr>t_jobId = j, t_callback = cb, t_jobData = d, t_delay = at - clock w\<rparr>" "\<lparr>timeout = next_timer w, jobData = d, callback = cb, job_scheduledAt = at\<rparr>"]
    by (simp add: distinct_update update_conv')
qed

lemma reschedule_eq: "reschedule j at cb d w = schedule j at cb d (snd (cancel j w))"
  by (cases "map_of (jobs w) j") (simp_all add: reschedule_def js_defs cancel_absent cancel_present)

lemma reschedule_sched_inv: "sched_inv w \<Longrightarrow> sched_inv (snd (reschedule j at cb d w))"
  by (simp add: reschedule_eq cancel_sched_inv schedule_sched_inv)


lemma fire_unarmed: "map_of (timers w) h = None \<Longrightarrow> fire run h w = (Return (), w)"
  by (simp add: fire_def)

lemma fire_effect:
  assumes fr: "sched_frame run" and t: "map_of (timers w) h = Some t"
  shows "jobs (snd (fire run h w)) = AList.delete (t_jobId t) (jobs w)"
    and "timers (snd (fire run h w)) = AList.delete h (timers w)"
    and "next_timer (snd (fire run h w)) = next_timer w"
proof -
  let ?w1 = "w\<lparr>timers := AList.delete h (timers w),
               log := log w @ [(INFO, ''Executing in-memory job: '' @ t_jobId t)]\<rparr>"
  obtain r w2 where r: "run (t_callback t) (t_jobData t) ?w1 = (r, w2)"
    by (cases "run (t_callback t) (t_jobData t) ?w1") auto
  from fr have "jobs (snd (run (t_callback t) (t_jobData t) ?w1)) = jobs ?w1"
    "timers (snd (run (t_callback t) (t_jobData t) ?w1)) = timers ?w1"
    "next_timer (snd (run (t_callback t) (t_jobData t) ?w1)) = next_timer ?w1"
    unfolding sched_frame_def by blast+
  then have w2: "jobs w2 = jobs w" "timers w2 = AList.delete h (timers w)"
    "next_timer w2 = next_timer w"
    using r by simp_all
  show "jobs (snd (fire run h w)) = AList.delete (t_jobId t) (jobs w)"
    and "timers (snd (fire run h w)) = AList.delete h (timers w)"
    and "next_timer (snd (fire run h w)) = next_timer w"
  proof -
    let ?w0 = "w\<lparr>timers := AList.delete h (timers w)\<rparr>"
    have r0: "run (t_callback t) (t_jobData t)
                (?w0\<lparr>log := log ?w0 @ [(INFO, ''Executing in-memory job: '' @ t_jobId t)]\<rparr>) =
              (r, w2)"
      using r by simp
    have f: "fire run h w = timer_fn run t ?w0" using t by (simp add: fire_def)
    have "jobs (snd (timer_fn run t ?w0)) = AList.delete (t_jobId t) (jobs w) \<and>
          timers (snd (timer_fn run t ?w0)) = AList.delete h (timers w) \<and>
          next_timer (snd (timer_fn run t ?w0)) = next_timer w"
    proof (cases r)
      case (Return v)
      with r0 have "timer_fn run t ?w0 =
          drop_value (Some v) (w2\<lparr>jobs := AList.delete (t_jobId t) (jobs w2)\<rparr>)"
        by (simp add: timer_fn_callback_returns)
      then show ?thesis using w2 by (simp add: drop_value_frame)
    next
      case (Throw e)
      with r0 have "timer_fn run t ?w0 =
          (Return (),
           w2\<lparr>log := log w2 @ [(ERROR, ''Error executing in-memory job: '' @ t_jobId t)],
              jobs := AList.delete (t_jobId t) (jobs w2)\<rparr>)"
        by (simp add: timer_fn_callback_throws)
      then show ?thesis using w2 by simp
    qed
    then show "jobs (snd (fire run h w)) = AList.delete (t_jobId t) (jobs w)"
      and "timers (snd (fire run h w)) = AList.delete h (timers w)"
      and "next_timer (snd (fire run h w)) = next_timer w"
      using f by simp_all
  qed
qed

lemma fire_sched_inv:
  assumes fr: "sched_frame run" and inv: "sched_inv w"
  shows "sched_inv (snd (fire run h w))"
proof (cases "map_of (timers w) h")
  case None
  then show ?thesis using inv by (simp add: fire_unarmed)
next
  case (Some t)
  from inv[unfolded sched_inv_iff] Some
  obtain e where e: "map_of (jobs w) (t_jobId t) = Some e" "timeout e = h" by blast
  have "sched_inv (snd (fire run h w)) = sched_inv (snd (cancel (t_jobId t) w))"
    by (rule sched_inv_frame) (simp_all add: fire_effect[OF fr Some] cancel_present[OF e(1)] e(2))
  then show ?thesis using cancel_sched_inv[OF inv] by simp
qed

lemma fold_delete_lookup:
  "map_of (fold (\<lambda>(j, e). AList.delete (timeout e)) js tm) h =
     (if h \<in> (\<lambda>(j, e). timeout e) ` set js then None else map_of tm h)"
  by (induction js arbitrary: tm) (auto simp: delete_conv')

lemma clear_effect:
  "clear w =
     (Return (),
      w\<lparr>timers := fold (\<lambda>(j, e). AList.delete (timeout e)) (jobs w) (timers w), jobs := [],
        log := log w @ [(INFO, ''Cleared all in-memory jobs'')]\<rparr>)"
  by (simp add: clear_def js_defs)

lemma clear_disarms_all:
  assumes inv: "sched_inv w"
  shows "timers (snd (clear w)) = []" and "jobs (snd (clear w)) = []"
proof -
  have "map_of (fold (\<lambda>(j, e). AList.delete (timeout e)) (jobs w) (timers w)) h = None" for h
  proof (cases "map_of (timers w) h")
    case None
    then show ?thesis by (simp add: fold_delete_lookup)
  next
    case (Some t)
    from inv[unfolded sched_inv_iff] Some
    obtain e where e: "map_of (jobs w) (t_jobId t) = Some e" "timeout e = h" by blast
    then have "(t_jobId t, e) \<in> set (jobs w)" by (simp add: map_of_SomeD)
    then have "h \<in> (\<lambda>(j, e). timeout e) ` set (jobs w)" using e(2) by force
    then show ?thesis by (simp add: fold_delete_lookup)
  qed
  then have "map_of (fold (\<lambda>(j, e). AList.delete (timeout e)) (jobs w) (timers w)) = Map.empty"
    by (simp add: fun_eq_iff)
  then show "timers (snd (clear w)) = []" by (simp add: clear_effect)
  show "jobs (snd (clear w)) = []" by (simp add: clear_effect)
qed

lemma clear_sched_inv: "sched_inv w \<Longrightarrow> sched_inv (snd (clear w))"
  using clear_disarms_all[of w] by (simp add: sched_inv_def)

lemma length_le_one_same_key:
  "distinct (map fst xs) \<Longrightarrow> \<forall>x\<in>set xs. fst x = k \<Longrightarrow> length xs \<le> 1"
  by (cases xs; cases "tl xs") auto

lemma armed_for_at_most_one:
  assumes inv: "sched_inv w"
  shows "length (armed_for j w) \<le> 1"
proof (cases "map_of (jobs w) j")
  case None
  have "armed_for j w = []"
    unfolding armed_for_def filter_empty_conv
  proof (intro ballI)
    fix x assume x: "x \<in> set (timers w)"
    obtain h t where ht: "x = (h, t)" by (cases x)
    have "map_of (timers w) h = Some t" using inv[unfolded sched_inv_iff] x ht by simp
    then have "map_of (jobs w) (t_jobId t) \<noteq> None" using inv[unfolded sched_inv_iff] by blast
    then show "\<not> (case x of (h, t) \<Rightarrow> t_jobId t = j)" using None ht by auto
  qed
  then show ?thesis by simp
next
  case (Some e)
  have d: "distinct (map fst (armed_for j w))"
    using inv[unfolded sched_inv_iff] unfolding armed_for_def by (simp add: distinct_map_filter)
  have "\<forall>x\<in>set (armed_for j w). fst x = timeout e"
  proof
    fix x assume x: "x \<in> set (armed_for j w)"
    obtain h t where ht: "x = (h, t)" by (cases x)
    have "map_of (timers w) h = Some t" "t_jobId t = j"
      using inv[unfolded sched_inv_iff] x ht by (simp_all add: armed_for_def)
    then show "fst x = timeout e" using inv[unfolded sched_inv_iff] Some ht by fastforce
  qed
  then show ?thesis using d by (rule length_le_one_same_key[rotated])
qed

lemma keeps_return: "keeps_sched (js_return x)"
  by (simp add: keeps_sched_def js_return_def)

lemma keeps_throw: "keeps_sched (js_throw e)"
  by (simp add: keeps_sched_def js_throw_def)

lemma keeps_logger: "keeps_sched (logger lvl msg)"
  by (simp add: keeps_sched_def logger_def)

lemma keeps_bind:
  assumes "keeps_sched m" "\<And>x. keeps_sched (f x)"
  shows "keeps_sched (js_bind m f)"
  unfolding keeps_sched_def
proof
  fix w
  obtain r w1 where r: "m w = (r, w1)" by (cases "m w") auto
  have 1: "jobs w1 = jobs w \<and> timers w1 = timers w \<and> next_timer w1 = next_timer w"
    using assms(1) r unfolding keeps_sched_def by (metis snd_conv)
  show "jobs (snd (js_bind m f w)) = jobs w \<and> timers (snd (js_bind m f w)) = timers w \<and>
          next_timer (snd (js_bind m f w)) = next_timer w"
  proof (cases r)
    case (Return x)
    then show ?thesis using r 1 assms(2)[of x] by (simp add: js_bind_def keeps_sched_def)
  next
    case (Throw e)
    then show ?thesis using r 1 by (simp add: js_bind_def)
  qed
qed

lemma keeps_try:
  assumes "keeps_sched m" "\<And>e. keeps_sched (f e)"
  shows "keeps_sched (js_try m f)"
  unfolding keeps_sched_def
proof
  fix w
  obtain r w1 where r: "m w = (r, w1)" by (cases "m w") auto
  have 1: "jobs w1 = jobs w \<and> timers w1 = timers w \<and> next_timer w1 = next_timer w"
    using assms(1) r unfolding keeps_sched_def by (metis snd_conv)
  show "jobs (snd (js_try m f w)) = jobs w \<and> timers (snd (js_try m f w)) = timers w \<and>
          next_timer (snd (js_try m f w)) = next_timer w"
  proof (cases r)
    case (Return x)
    then show ?thesis using r 1 by (simp add: js_try_def)
  next
    case (Throw e)
    then show ?thesis using r 1 assms(2)[of e] by (simp add: js_try_def keeps_sched_def)
  qed
qed

lemma keeps_db_call: "keeps_sched db_call"
  by (auto simp: keeps_sched_def db_call_def split: list.splits option.splits)

lemma keeps_findByPk: "keeps_sched (findByPk i)"
  unfolding findByPk_def by (rule keeps_bind[OF keeps_db_call]) (simp add: keeps_sched_def)

lemma keeps_email_update: "keeps_sched (email_update i f)"
  unfolding email_update_def by (rule keeps_bind[OF keeps_db_call]) (simp add: keeps_sched_def)

lemma keeps_getEmailById: "keeps_sched (getEmailById i)"
  unfolding getEmailById_def
  by (intro keeps_try keeps_bind keeps_findByPk keeps_logger keeps_throw)
     (simp add: keeps_throw keeps_return split: option.splits)

lemma keeps_markEmailAsSent: "keeps_sched (markEmailAsSent i)"
  unfolding markEmailAsSent_def
  by (intro keeps_try keeps_bind keeps_findByPk keeps_logger keeps_throw)
     (auto intro!: keeps_bind keeps_email_update keeps_logger keeps_return split: option.splits)

lemma keeps_markEmailAsFailed: "keeps_sched (markEmailAsFailed i r)"
  unfolding markEmailAsFailed_def
  by (intro keeps_try keeps_bind keeps_findByPk keeps_logger keeps_throw)
     (auto intro!: keeps_bind keeps_email_update keeps_logger keeps_return split: option.splits)

lemma keeps_sendEmail: "keeps_sched (sendEmail t s b)"
  by (auto simp: keeps_sched_def sendEmail_def sg_call_def js_defs Let_def
           split: list.splits option.splits)

lemma keeps_processEmail: "keeps_sched (processEmail i)"
  unfolding processEmail_def processEmail_try_def
  by (intro keeps_try keeps_bind keeps_logger keeps_getEmailById keeps_markEmailAsFailed)
     (auto intro!: keeps_bind keeps_logger keeps_sendEmail keeps_markEmailAsSent
        keeps_markEmailAsFailed)

lemma processEmail_sched_frame:
  "jobs (snd (processEmail i w)) = jobs w \<and> timers (snd (processEmail i w)) = timers w \<and>
   next_timer (snd (processEmail i w)) = next_timer w"
  using keeps_processEmail[of i] unfolding keeps_sched_def by blast

lemma run_callback_frame: "sched_frame run_callback"
  unfolding sched_frame_def
proof (intro allI)
  fix cb d w
  show "jobs (snd (run_callback cb d w)) = jobs w \<and> timers (snd (run_callback cb d w)) = timers w \<and>
               next_timer (snd (run_callback cb d w)) = next_timer w"
  proof (cases cb)
    case (ProcessEmailCb i)
    obtain r w' where r: "processEmail i w = (r, w')" by (cases "processEmail i w") auto
    with processEmail_sched_frame[of i w] show ?thesis
      using ProcessEmailCb by (simp add: js_async_def)
  qed
qed

lemma update_fresh: "k \<notin> fst ` set al \<Longrightarrow> AList.update k v al = al @ [(k, v)]"
  by (induction al) auto

lemma armed_for_unscheduled:
  assumes inv: "sched_inv w" and None: "map_of (jobs w) j = None"
  shows "armed_for j w = []"
  unfolding armed_for_def filter_empty_conv
proof (intro ballI)
  fix x assume x: "x \<in> set (timers w)"
  obtain h t where ht: "x = (h, t)" by (cases x)
  have "map_of (timers w) h = Some t" using inv[unfolded sched_inv_iff] x ht by simp
  then have "map_of (jobs w) (t_jobId t) \<noteq> None" using inv[unfolded sched_inv_iff] by blast
  then show "\<not> (case x of (h, t) \<Rightarrow> t_jobId t = j)" using None ht by auto
qed

lemma cancel_armed_for: "sched_inv w \<Longrightarrow> armed_for j (snd (cancel j w)) = []"
  by (simp add: armed_for_unscheduled cancel_sched_inv cancel_jobs_lookup)

lemma schedule_armed_for:
  assumes inv: "sched_inv w" and fut: "clock w < at"
  shows "armed_for j (snd (schedule j at cb d w)) =
           [(next_timer w, \<lparr>t_jobId = j, t_callback = cb, t_jobData = d, t_delay = at - clock w\<rparr>)]"
proof -
  let ?c = "snd (cancel j w)"
  have invc: "sched_inv ?c" using inv by (rule cancel_sched_inv)
  have B: "\<forall>h t. map_of (timers ?c) h = Some t \<longrightarrow> h < next_timer w"
    using invc[unfolded sched_inv_iff cancel_next_timer] by blast
  have "map_of (timers ?c) (next_timer w) = None"
  proof (cases "map_of (timers ?c) (next_timer w)")
    case (Some t)
    with B have "next_timer w < next_timer w" by blast
    then show ?thesis by simp
  qed simp
  then have fresh: "next_timer w \<notin> fst ` set (timers ?c)" by (simp add: map_of_eq_None_iff)
  have "armed_for j ?c = []" using inv by (rule cancel_armed_for)
  then show ?thesis
    using fresh by (simp add: schedule_future[OF fut] armed_for_def update_fresh)
qed

lemma schedule_disarms_previous:
  assumes inv: "sched_inv w" and e: "map_of (jobs w) j = Some e"
  shows "map_of (timers (snd (schedule j at cb d w))) (timeout e) = None"
proof -
  from inv[unfolded sched_inv_iff] e have lt: "timeout e < next_timer w" by blast
  show ?thesis
  proof (cases "clock w < at")
    case True
    then show ?thesis using lt e by (simp add: schedule_future cancel_present update_conv' delete_conv')
  next
    case False
    then show ?thesis using e by (simp add: schedule_past cancel_present delete_conv')
  qed
qed

lemma fire_removes_own_entry:
  assumes fr: "sched_frame run" and inv: "sched_inv w" and t: "map_of (timers w) h = Some t"
  shows "\<exists>e. map_of (jobs w) (t_jobId t) = Some e \<and> timeout e = h"
    and "map_of (jobs (snd (fire run h w))) (t_jobId t) = None"
    and "map_of (timers (snd (fire run h w))) h = None"
  using inv[unfolded sched_inv_iff] t by (auto simp: fire_effect[OF fr t] delete_conv')

lemma cancel_returns: "fst (cancel j w) = Return (map_of (jobs w) j \<noteq> None)"
  by (cases "map_of (jobs w) j") (simp_all add: cancel_absent cancel_present)

lemma cancel_after_fire:
  assumes fr: "sched_frame run" and t: "map_of (timers w) h = Some t"
  shows "fst (cancel (t_jobId t) (snd (fire run h w))) = Return False"
  by (simp add: cancel_returns fire_effect[OF fr t] delete_conv')

lemma removeEmailJob_returns: "fst (removeEmailJob j w) = Return ()"
  unfolding removeEmailJob_def js_defs
  by (auto split: prod.splits outcome.splits option.splits)

lemma redis_call_Some:
  "redis_script w = Some e # rest \<Longrightarrow> redis_call w = (Throw e, w\<lparr>redis_script := rest\<rparr>)"
  by (simp add: redis_call_def)

lemma redis_call_None:
  "redis_script w = None # rest \<Longrightarrow> redis_call w = (Return (), w\<lparr>redis_script := rest\<rparr>)"
  by (simp add: redis_call_def)

lemma redis_call_quiet:
  "quiet (redis_script w) \<Longrightarrow> redis_call w = (Return (), w\<lparr>redis_script := tl (redis_script w)\<rparr>)"
  by (cases w; cases "redis_script w") (auto simp: redis_call_def quiet_def)

lemmas queue_defs = queue_add_def queue_getJob_def job_remove_def job_getState_def

lemma removeEmailJob_lookup_throws:
  assumes "redis_enabled w" "emailQueue w" "redis_script w = Some err # rest"
  shows "removeEmailJob j w =
     (Return (), w\<lparr>redis_script := rest, log := log w @ [(ERROR, ''Failed to remove email job:'')]\<rparr>)"
  using assms by (simp add: removeEmailJob_def js_defs queue_defs redis_call_Some)

lemma removeEmailJob_remove_throws:
  assumes "redis_enabled w" "emailQueue w" "redis_script w = None # Some err # rest"
    "queue_jobs w j = Some b"
  shows "removeEmailJob j w =
     (Return (), w\<lparr>redis_script := rest, log := log w @ [(ERROR, ''Failed to remove email job:'')]\<rparr>)"
  using assms by (simp add: removeEmailJob_def js_defs queue_defs redis_call_Some redis_call_None)

lemma sched_inv_world_armed: "sched_inv world_armed"
  by (simp add: sched_inv_def example_defs)

section \<open>Claims about the in-memory scheduler\<close>

text \<open>
  C5. The scheduler's map and the host's armed timers stay in agreement, with at most one
  armed timer per job id. The agreement holds when nothing is scheduled, and \<open>schedule\<close>,
  \<open>cancel\<close>, \<open>reschedule\<close>, \<open>clear\<close> and the firing of a timer (with a callback
  that leaves the scheduler alone) preserve it. Under it the map has no repeated key and
  at most one timer is armed for a job id; \<open>schedule\<close> disarms the timer the job id had
  before, and after it succeeds the newly armed timer is the only one of the job id; a
  timer that fires belongs to the map entry of its job id and removes that entry.
\<close>

theorem timer_store_one_armed_timer_per_job:
  "(jobs w0 = [] \<and> timers w0 = [] \<longrightarrow> sched_inv w0) \<and>
   (sched_inv w \<longrightarrow>
      sched_inv (snd (schedule j at cb d w)) \<and>
      sched_inv (snd (cancel j w)) \<and>
      sched_inv (snd (reschedule j at cb d w)) \<and>
      sched_inv (snd (clear w)) \<and>
      (sched_frame run \<longrightarrow> sched_inv (snd (fire run h w))) \<and>
      distinct (map fst (jobs w)) \<and>
      length (armed_for j w) \<le> 1 \<and>
      (map_of (jobs w) j = Some e \<longrightarrow>
         map_of (timers (snd (schedule j at cb d w))) (timeout e) = None) \<and>
      (clock w < at \<longrightarrow>
         armed_for j (snd (schedule j at cb d w)) =
           [(next_timer w,
             \<lparr>t_jobId = j, t_callback = cb, t_jobData = d, t_delay = at - clock w\<rparr>)]) \<and>
      (sched_frame run \<and> map_of (timers w) h = Some t \<longrightarrow>
         (\<exists>e'. map_of (jobs w) (t_jobId t) = Some e' \<and> timeout e' = h) \<and>
         map_of (jobs (snd (fire run h w))) (t_jobId t) = None \<and>
         map_of (timers (snd (fire run h w))) h = None))"
proof (intro conjI impI)
  assume "jobs w0 = [] \<and> timers w0 = []"
  then show "sched_inv w0" by (simp add: sched_inv_def)
next
  assume inv: "sched_inv w"
  show "sched_inv (snd (schedule j at cb d w))" using inv by (rule schedule_sched_inv)
  show "sched_inv (snd (cancel j w))" using inv by (rule cancel_sched_inv)
  show "sched_inv (snd (reschedule j at cb d w))" using inv by (rule reschedule_sched_inv)
  show "sched_inv (snd (clear w))" using inv by (rule clear_sched_inv)
  show "distinct (map fst (jobs w))" using inv by (simp add: sched_inv_def)
  show "length (armed_for j w) \<le> 1" using inv by (rule armed_for_at_most_one)
  show "sched_inv (snd (fire run h w))" if "sched_frame run"
    using that inv by (rule fire_sched_inv)
  show "map_of (timers (snd (schedule j at cb d w))) (timeout e) = None"
    if "map_of (jobs w) j = Some e"
    using inv that by (rule schedule_disarms_previous)
  show "armed_for j (snd (schedule j at cb d w)) =
           [(next_timer w,
             \<lparr>t_jobId = j, t_callback = cb, t_jobData = d, t_delay = at - clock w\<rparr>)]"
    if "clock w < at"
    using inv that by (rule schedule_armed_for)
  show "\<exists>e'. map_of (jobs w) (t_jobId t) = Some e' \<and> timeout e' = h"
    if "sched_frame run \<and> map_of (timers w) h = Some t"
    using fire_removes_own_entry(1)[of run w h t] that inv by blast
  show "map_of (jobs (snd (fire run h w))) (t_jobId t) = None"
    if "sched_frame run \<and> map_of (timers w) h = Some t"
    using fire_removes_own_entry(2)[of run w h t] that inv by blast
  show "map_of (timers (snd (fire run h w))) h = None"
    if "sched_frame run \<and> map_of (timers w) h = Some t"
    using fire_removes_own_entry(3)[of run w h t] that inv by blast
qed

theorem timer_store_one_armed_timer_per_job_witness:
  "jobs world0 = [] \<and> timers world0 = [] \<and> sched_inv world0 \<and>
   sched_inv world_armed \<and> sched_frame run_callback \<and>
   map_of (jobs world_armed) ''e1'' =
     Some \<lparr>timeout = 0, jobData = [(''emailId'', ''e1'')], callback = ProcessEmailCb ''e1'',
           job_scheduledAt = 2000\<rparr> \<and>
   clock world_armed < 3000 \<and> map_of (timers world_armed) 0 = Some example_timer \<and>
   sched_inv (snd (schedule ''e1'' 3000 (ProcessEmailCb ''e1'') [(''emailId'', ''e1'')] world_armed)) \<and>
   sched_inv (snd (fire run_callback 0 world_armed)) \<and>
   length (armed_for ''e1'' world_armed) \<le> 1 \<and>
   map_of (timers (snd (schedule ''e1'' 3000 (ProcessEmailCb ''e1'') [(''emailId'', ''e1'')]
      world_armed))) 0 = None \<and>
   armed_for ''e1'' (snd (schedule ''e1'' 3000 (ProcessEmailCb ''e1'') [(''emailId'', ''e1'')]
      world_armed)) =
     [(1, \<lparr>t_jobId = ''e1'', t_callback = ProcessEmailCb ''e1'',
           t_jobData = [(''emailId'', ''e1'')], t_delay = 2000\<rparr>)] \<and>
   map_of (jobs (snd (fire run_callback 0 world_armed))) ''e1'' = None"
  using timer_store_one_armed_timer_per_job[of world0 world_armed "''e1''" 3000 "ProcessEmailCb ''e1''" "[(''emailId'', ''e1'')]"
           run_callback 0
           "\<lparr>timeout = 0, jobData = [(''emailId'', ''e1'')], callback = ProcessEmailCb ''e1'',
             job_scheduledAt = 2000\<rparr>" example_timer]
    sched_inv_world_armed run_callback_frame
  by (simp add: example_defs)

text \<open>
  C8. \<open>cancel\<close> never throws and returns whether the map held an entry for the job
  id. When it did, the entry is removed and its timer disarmed (under the agreement of
  map and timers, no timer of the job id stays armed); when it did not, nothing changes
  and the result is false; after the timer of a job has fired, cancelling the job gives
  false. \<open>removeEmailJob\<close> returns normally in every state: an error of the lookup or
  of the removal is logged and not passed on.
\<close>

theorem cancel_reports_whether_a_job_was_armed:
  "fst (cancel j w) = Return (map_of (jobs w) j \<noteq> None) \<and>
   map_of (jobs (snd (cancel j w))) j = None \<and>
   (map_of (jobs w) j = Some e \<longrightarrow>
      map_of (timers (snd (cancel j w))) (timeout e) = None) \<and>
   (map_of (jobs w) j = None \<longrightarrow> cancel j w = (Return False, w)) \<and>
   (sched_inv w \<longrightarrow> armed_for j (snd (cancel j w)) = []) \<and>
   (sched_frame run \<and> map_of (timers w) h = Some t \<longrightarrow>
      fst (cancel (t_jobId t) (snd (fire run h w))) = Return False) \<and>
   fst (removeEmailJob k v) = Return () \<and>
   (redis_enabled v \<and> emailQueue v \<and> redis_script v = Some err # rest \<longrightarrow>
      removeEmailJob k v =
        (Return (),
         v\<lparr>redis_script := rest, log := log v @ [(ERROR, ''Failed to remove email job:'')]\<rparr>)) \<and>
   (redis_enabled v \<and> emailQueue v \<and> redis_script v = None # Some err # rest \<and>
    queue_jobs v k = Some b \<longrightarrow>
      removeEmailJob k v =
        (Return (),
         v\<lparr>redis_script := rest, log := log v @ [(ERROR, ''Failed to remove email job:'')]\<rparr>))"
  using cancel_returns[of j w] cancel_jobs_lookup[of j w] cancel_absent[of w j]
    cancel_armed_for[of w j] cancel_after_fire[of run w h t] removeEmailJob_returns[of k v]
    removeEmailJob_lookup_throws[of v err rest k] removeEmailJob_remove_throws[of v err rest k b]
  by (auto simp: cancel_present delete_conv')

theorem cancel_reports_whether_a_job_was_armed_witness:
  "fst (cancel ''e1'' world_armed) = Return True \<and>
   fst (cancel ''e2'' world_armed) = Return False \<and>
   map_of (jobs world_armed) ''e2'' = None \<and>
   cancel ''e2'' world_armed = (Return False, world_armed) \<and>
   map_of (jobs world_armed) ''e1'' =
     Some \<lparr>timeout = 0, jobData = [(''emailId'', ''e1'')], callback = ProcessEmailCb ''e1'',
           job_scheduledAt = 2000\<rparr> \<and>
   map_of (timers (snd (cancel ''e1'' world_armed))) 0 = None \<and>
   sched_inv world_armed \<and> armed_for ''e1'' (snd (cancel ''e1'' world_armed)) = [] \<and>
   sched_frame run_callback \<and> map_of (timers world_armed) 0 = Some example_timer \<and>
   fst (cancel ''e1'' (snd (fire run_callback 0 world_armed))) = Return False \<and>
   redis_enabled world_queued \<and> emailQueue world_queued \<and>
   queue_jobs world_queued ''e1'' = Some example_bull_job \<and>
   removeEmailJob ''e1'' (world_queued\<lparr>redis_script := [Some (new_Error ''timeout'')]\<rparr>) =
     (Return (),
      world_queued\<lparr>redis_script := [], log := [(ERROR, ''Failed to remove email job:'')]\<rparr>) \<and>
   removeEmailJob ''e1'' (world_queued\<lparr>redis_script := [None, Some (new_Error ''locked'')]\<rparr>) =
     (Return (),
      world_queued\<lparr>redis_script := [], log := [(ERROR, ''Failed to remove email job:'')]\<rparr>)"
  using cancel_reports_whether_a_job_was_armed[of "''e1''" world_armed
           "\<lparr>timeout = 0, jobData = [(''emailId'', ''e1'')], callback = ProcessEmailCb ''e1'',
             job_scheduledAt = 2000\<rparr>" run_callback 0 example_timer "''e1''"
           "world_queued\<lparr>redis_script := [Some (new_Error ''timeout'')]\<rparr>"
           "new_Error ''timeout''" "[]" example_bull_job]
    cancel_reports_whether_a_job_was_armed[of "''e2''" world_armed _ run_callback 0 example_timer "''e1''"
           "world_queued\<lparr>redis_script := [None, Some (new_Error ''locked'')]\<rparr>"
           "new_Error ''locked''" "[]" example_bull_job]
    sched_inv_world_armed run_callback_frame
  by (simp add: example_defs)

text \<open>
  C10. \<open>schedule\<close> with a time that is not after the current time, on a job id that
  holds an armed timer: the call throws \<open>Scheduled time must be in the future\<close>, and
  the state it leaves is the one \<open>cancel\<close> leaves: the entry of the job id is removed
  from the map and its timer is disarmed, so no timer of the job id is armed any more.
\<close>

theorem rejected_schedule_cancels_armed_timer:
  "map_of (jobs w) j = Some e \<and> at \<le> clock w \<longrightarrow>
     fst (schedule j at cb d w) = Throw (new_Error ''Scheduled time must be in the future'') \<and>
     snd (schedule j at cb d w) = snd (cancel j w) \<and>
     jobs (snd (schedule j at cb d w)) = AList.delete j (jobs w) \<and>
     timers (snd (schedule j at cb d w)) = AList.delete (timeout e) (timers w) \<and>
     map_of (jobs (snd (schedule j at cb d w))) j = None \<and>
     map_of (timers (snd (schedule j at cb d w))) (timeout e) = None \<and>
     (sched_inv w \<longrightarrow> armed_for j (snd (schedule j at cb d w)) = [])"
  using cancel_armed_for[of w j]
  by (auto simp: schedule_past cancel_present delete_conv')

theorem rejected_schedule_cancels_armed_timer_witness:
  "map_of (jobs world_armed) ''e1'' =
     Some \<lparr>timeout = 0, jobData = [(''emailId'', ''e1'')], callback = ProcessEmailCb ''e1'',
           job_scheduledAt = 2000\<rparr> \<and>
   (1000::int) \<le> clock world_armed \<and> sched_inv world_armed \<and>
   fst (schedule ''e1'' 1000 (ProcessEmailCb ''e1'') [(''emailId'', ''e1'')] world_armed) =
     Throw (new_Error ''Scheduled time must be in the future'') \<and>
   jobs (snd (schedule ''e1'' 1000 (ProcessEmailCb ''e1'') [(''emailId'', ''e1'')] world_armed)) = [] \<and>
   timers (snd (schedule ''e1'' 1000 (ProcessEmailCb ''e1'') [(''emailId'', ''e1'')] world_armed)) = [] \<and>
   armed_for ''e1''
     (snd (schedule ''e1'' 1000 (ProcessEmailCb ''e1'') [(''emailId'', ''e1'')] world_armed)) = []"
  using rejected_schedule_cancels_armed_timer[of world_armed "''e1''"
            "\<lparr>timeout = 0, jobData = [(''emailId'', ''e1'')], callback = ProcessEmailCb ''e1'',
              job_scheduledAt = 2000\<rparr>" 1000 "ProcessEmailCb ''e1''" "[(''emailId'', ''e1'')]"]
  by (simp add: example_defs sched_inv_def cancel_def js_defs sched_defs armed_for_def)

section \<open>The facade: rejected times\<close>

lemma getRedisClient_frame:
  "queue_jobs (snd (getRedisClient w)) = queue_jobs w \<and> clock (snd (getRedisClient w)) = clock w \<and>
   redis_enabled (snd (getRedisClient w)) = redis_enabled w \<and>
   emailQueue (snd (getRedisClient w)) = emailQueue w"
  by (auto simp: getRedisClient_def js_defs redis_call_def split: list.splits option.splits)

lemma getEmailQueue_frame:
  "queue_jobs (snd (getEmailQueue w)) = queue_jobs w \<and> clock (snd (getEmailQueue w)) = clock w \<and>
   redis_enabled (snd (getEmailQueue w)) = redis_enabled w"
proof -
  obtain r w1 where r: "getRedisClient w = (r, w1)" by (cases "getRedisClient w") auto
  with getRedisClient_frame[of w] show ?thesis
    by (cases r) (auto simp: getEmailQueue_def js_defs)
qed

lemma getEmailQueue_created:
  "redis_enabled w \<Longrightarrow> emailQueue w \<Longrightarrow> getEmailQueue w = (Return True, w)"
  by (simp add: getEmailQueue_def js_defs)

lemma getRedisClient_quiet:
  "quiet (redis_script w) \<Longrightarrow>
     fst (getRedisClient w) = Return () \<and> quiet (redis_script (snd (getRedisClient w)))"
  by (simp add: getRedisClient_def js_defs redis_call_quiet quiet_tl)

lemma getEmailQueue_quiet:
  assumes "redis_enabled w" "quiet (redis_script w)"
  shows "fst (getEmailQueue w) = Return True" and "quiet (redis_script (snd (getEmailQueue w)))"
proof -
  obtain r w1 where r: "getRedisClient w = (r, w1)" by (cases "getRedisClient w") auto
  with getRedisClient_quiet[OF assms(2)] have "r = Return ()" "quiet (redis_script w1)" by auto
  with r assms show "fst (getEmailQueue w) = Return True"
    and "quiet (redis_script (snd (getEmailQueue w)))"
    by (auto simp: getEmailQueue_def js_defs)
qed

text \<open>Distributed mode, the queue handle obtained, the time not in the future.\<close>

lemma addEmailJob_redis_past:
  assumes "redis_enabled w" "fst (getEmailQueue w) = Return True" "at \<le> clock w"
  shows "fst (addEmailJob j at w) = Throw (new_Error ''Scheduled time must be in the future'')"
    and "queue_jobs (snd (addEmailJob j at w)) = queue_jobs w"
proof -
  obtain w1 where g: "getEmailQueue w = (Return True, w1)"
    using assms(2) by (cases "getEmailQueue w") auto
  have c: "clock w1 = clock w" "queue_jobs w1 = queue_jobs w"
    using getEmailQueue_frame[of w] g by auto
  show "fst (addEmailJob j at w) = Throw (new_Error ''Scheduled time must be in the future'')"
    and "queue_jobs (snd (addEmailJob j at w)) = queue_jobs w"
    using assms g c by (simp_all add: addEmailJob_def js_defs)
qed

lemma rescheduleEmailJob_redis_past:
  assumes "redis_enabled w" "fst (getEmailQueue w) = Return True" "at \<le> clock w"
  shows "fst (rescheduleEmailJob j at w) =
           Throw (new_Error ''Scheduled time must be in the future'')"
    and "queue_jobs (snd (rescheduleEmailJob j at w)) = queue_jobs w"
proof -
  obtain w1 where g: "getEmailQueue w = (Return True, w1)"
    using assms(2) by (cases "getEmailQueue w") auto
  have c: "clock w1 = clock w" "queue_jobs w1 = queue_jobs w"
    using getEmailQueue_frame[of w] g by auto
  show "fst (rescheduleEmailJob j at w) =
           Throw (new_Error ''Scheduled time must be in the future'')"
    and "queue_jobs (snd (rescheduleEmailJob j at w)) = queue_jobs w"
    using assms g c by (simp_all add: rescheduleEmailJob_def js_defs)
qed

lemma addEmailJob_memory_past:
  assumes "\<not> redis_enabled w" "at \<le> clock w"
  shows "fst (addEmailJob j at w) = Throw (new_Error ''Scheduled time must be in the future'')"
    and "jobs (snd (addEmailJob j at w)) = AList.delete j (jobs w)"
    and "timers (snd (addEmailJob j at w)) = timers (snd (cancel j w))"
    and "next_timer (snd (addEmailJob j at w)) = next_timer w"
  using assms
  by (cases "map_of (jobs w) j";
      simp add: addEmailJob_def js_defs schedule_past cancel_absent cancel_present
        map_of_eq_None_iff)+

lemma rescheduleEmailJob_memory_past:
  assumes "\<not> redis_enabled w" "at \<le> clock w"
  shows "fst (rescheduleEmailJob j at w) =
           Throw (new_Error ''Scheduled time must be in the future'')"
    and "jobs (snd (rescheduleEmailJob j at w)) = AList.delete j (jobs w)"
    and "timers (snd (rescheduleEmailJob j at w)) = timers (snd (cancel j w))"
    and "next_timer (snd (rescheduleEmailJob j at w)) = next_timer w"
  using assms
  by (cases "map_of (jobs w) j";
      simp add: rescheduleEmailJob_def js_defs reschedule_eq schedule_past cancel_absent
        cancel_present map_of_eq_None_iff delete_conv')+

lemma armed_for_frame:
  "timers w' = timers w \<Longrightarrow> armed_for j w' = armed_for j w"
  by (simp add: armed_for_def)

section \<open>Claims about the scheduling facade\<close>

text \<open>
  C2, as amended. For a time that is not after the current time, \<open>addEmailJob\<close> and
  \<open>rescheduleEmailJob\<close> throw \<open>Scheduled time must be in the future\<close> and arm
  nothing. In in-memory mode no entry and (under the agreement of map and timers) no
  armed timer is left for the job id. In distributed mode, provided the queue handle is
  obtained, the queue is left exactly as it was, so a job already enqueued under the job
  id stays enqueued.
\<close>

theorem rejected_time_arms_nothing:
  "at \<le> clock w \<longrightarrow>
     (\<not> redis_enabled w \<longrightarrow>
        fst (addEmailJob j at w) = Throw (new_Error ''Scheduled time must be in the future'') \<and>
        fst (rescheduleEmailJob j at w) =
          Throw (new_Error ''Scheduled time must be in the future'') \<and>
        map_of (jobs (snd (addEmailJob j at w))) j = None \<and>
        map_of (jobs (snd (rescheduleEmailJob j at w))) j = None \<and>
        (sched_inv w \<longrightarrow>
           armed_for j (snd (addEmailJob j at w)) = [] \<and>
           armed_for j (snd (rescheduleEmailJob j at w)) = [])) \<and>
     (redis_enabled w \<and> fst (getEmailQueue w) = Return True \<longrightarrow>
        fst (addEmailJob j at w) = Throw (new_Error ''Scheduled time must be in the future'') \<and>
        fst (rescheduleEmailJob j at w) =
          Throw (new_Error ''Scheduled time must be in the future'') \<and>
        queue_jobs (snd (addEmailJob j at w)) = queue_jobs w \<and>
        queue_jobs (snd (rescheduleEmailJob j at w)) = queue_jobs w)"
proof (intro impI conjI)
  assume past: "at \<le> clock w" and mem: "\<not> redis_enabled w"
  show "fst (addEmailJob j at w) = Throw (new_Error ''Scheduled time must be in the future'')"
    using addEmailJob_memory_past(1)[OF mem past] .
  show "fst (rescheduleEmailJob j at w) =
          Throw (new_Error ''Scheduled time must be in the future'')"
    using rescheduleEmailJob_memory_past(1)[OF mem past] .
  show "map_of (jobs (snd (addEmailJob j at w))) j = None"
    by (simp add: addEmailJob_memory_past(2)[OF mem past] delete_conv')
  show "map_of (jobs (snd (rescheduleEmailJob j at w))) j = None"
    by (simp add: rescheduleEmailJob_memory_past(2)[OF mem past] delete_conv')
  show "armed_for j (snd (addEmailJob j at w)) = []" if "sched_inv w"
    using cancel_armed_for[OF that, of j]
      armed_for_frame[OF addEmailJob_memory_past(3)[OF mem past], of j j] by simp
  show "armed_for j (snd (rescheduleEmailJob j at w)) = []" if "sched_inv w"
    using cancel_armed_for[OF that, of j]
      armed_for_frame[OF rescheduleEmailJob_memory_past(3)[OF mem past], of j j] by simp
next
  assume past: "at \<le> clock w" and q: "redis_enabled w \<and> fst (getEmailQueue w) = Return True"
  then have r: "redis_enabled w" and g: "fst (getEmailQueue w) = Return True" by simp_all
  show "fst (addEmailJob j at w) = Throw (new_Error ''Scheduled time must be in the future'')"
    using addEmailJob_redis_past(1)[OF r g past] .
  show "fst (rescheduleEmailJob j at w) =
          Throw (new_Error ''Scheduled time must be in the future'')"
    using rescheduleEmailJob_redis_past(1)[OF r g past] .
  show "queue_jobs (snd (addEmailJob j at w)) = queue_jobs w"
    using addEmailJob_redis_past(2)[OF r g past] .
  show "queue_jobs (snd (rescheduleEmailJob j at w)) = queue_jobs w"
    using rescheduleEmailJob_redis_past(2)[OF r g past] .
qed

theorem rejected_time_arms_nothing_witness:
  "(1000::int) \<le> clock world_armed \<and> \<not> redis_enabled world_armed \<and> sched_inv world_armed \<and>
   fst (addEmailJob ''e1'' 1000 world_armed) =
     Throw (new_Error ''Scheduled time must be in the future'') \<and>
   fst (rescheduleEmailJob ''e1'' 1000 world_armed) =
     Throw (new_Error ''Scheduled time must be in the future'') \<and>
   map_of (jobs (snd (addEmailJob ''e1'' 1000 world_armed))) ''e1'' = None \<and>
   armed_for ''e1'' (snd (addEmailJob ''e1'' 1000 world_armed)) = [] \<and>
   armed_for ''e1'' (snd (rescheduleEmailJob ''e1'' 1000 world_armed)) = [] \<and>
   (900::int) \<le> clock world_queued \<and> redis_enabled world_queued \<and>
   fst (getEmailQueue world_queued) = Return True \<and>
   fst (addEmailJob ''e1'' 900 world_queued) =
     Throw (new_Error ''Scheduled time must be in the future'') \<and>
   fst (rescheduleEmailJob ''e1'' 900 world_queued) =
     Throw (new_Error ''Scheduled time must be in the future'') \<and>
   queue_jobs (snd (addEmailJob ''e1'' 900 world_queued)) = queue_jobs world_queued \<and>
   queue_jobs (snd (rescheduleEmailJob ''e1'' 900 world_queued)) = queue_jobs world_queued"
  using rejected_time_arms_nothing[of 1000 world_armed "''e1''"]
    rejected_time_arms_nothing[of 900 world_queued "''e1''"]
    sched_inv_world_armed
  by (simp add: example_defs getEmailQueue_def js_defs)

text \<open>
  C2 as stated fails in distributed mode. A job enqueued under the job id is still
  enqueued after the rejected call; and when the queue cannot be created the call is
  rejected with the connection error, before the time is looked at.
\<close>

theorem rejected_time_keeps_enqueued_job_counterexample:
  "(900::int) \<le> clock world_queued \<and>
   fst (rescheduleEmailJob ''e1'' 900 world_queued) =
     Throw (new_Error ''Scheduled time must be in the future'') \<and>
   queue_jobs (snd (rescheduleEmailJob ''e1'' 900 world_queued)) ''e1'' = Some example_bull_job \<and>
   fst (addEmailJob ''e1'' 900 world_queued) =
     Throw (new_Error ''Scheduled time must be in the future'') \<and>
   queue_jobs (snd (addEmailJob ''e1'' 900 world_queued)) ''e1'' = Some example_bull_job \<and>
   fst (addEmailJob ''e1'' 900
         (world_pending\<lparr>redis_enabled := True,
            redis_script := [Some (Error ''connect ECONNREFUSED'' None (Some ''ECONNREFUSED'') None)]\<rparr>))
     \<noteq> Throw (new_Error ''Scheduled time must be in the future'')"
  by (simp add: example_defs addEmailJob_def rescheduleEmailJob_def getEmailQueue_def
        getRedisClient_def redis_call_def js_defs new_Error_def)

section \<open>The facade: rescheduling\<close>

lemma rescheduleEmailJob_redis_future:
  assumes r: "redis_enabled w" and q: "quiet (redis_script w)" and fut: "clock w < at"
  shows "queue_jobs w j = None \<Longrightarrow>
           fst (rescheduleEmailJob j at w) = Return j \<and>
           queue_jobs (snd (rescheduleEmailJob j at w)) =
             (queue_jobs w)(j \<mapsto> \<lparr>job_name = ''send-email'', job_data = [(''emailId'', j)],
                                   job_delay = at - clock w, job_state = delayed\<rparr>)"
    and "queue_jobs w j = Some b \<Longrightarrow> job_state b = completed \<Longrightarrow>
           fst (rescheduleEmailJob j at w) =
             Throw (new_Error ''Cannot reschedule a job that has already been completed'') \<and>
           queue_jobs (snd (rescheduleEmailJob j at w)) = queue_jobs w"
    and "queue_jobs w j = Some b \<Longrightarrow> job_state b = active \<Longrightarrow>
           fst (rescheduleEmailJob j at w) =
             Throw (new_Error ''Cannot reschedule a job that is currently being processed'') \<and>
           queue_jobs (snd (rescheduleEmailJob j at w)) = queue_jobs w"
    and "queue_jobs w j = Some b \<Longrightarrow> job_state b \<noteq> completed \<Longrightarrow> job_state b \<noteq> active \<Longrightarrow>
           fst (rescheduleEmailJob j at w) = Return j \<and>
           queue_jobs (snd (rescheduleEmailJob j at w)) =
             (queue_jobs w)(j \<mapsto> \<lparr>job_name = ''send-email'', job_data = [(''emailId'', j)],
                                   job_delay = at - clock w, job_state = delayed\<rparr>)"
proof -
  obtain w1 where g: "getEmailQueue w = (Return True, w1)"
    using getEmailQueue_quiet(1)[OF r q] by (cases "getEmailQueue w") auto
  have c: "clock w1 = clock w" "queue_jobs w1 = queue_jobs w" "quiet (redis_script w1)"
    using getEmailQueue_frame[of w] getEmailQueue_quiet(2)[OF r q] g by auto
  note defs = rescheduleEmailJob_def js_defs queue_defs redis_call_quiet quiet_tl
  show "queue_jobs w j = None \<Longrightarrow>
           fst (rescheduleEmailJob j at w) = Return j \<and>
           queue_jobs (snd (rescheduleEmailJob j at w)) =
             (queue_jobs w)(j \<mapsto> \<lparr>job_name = ''send-email'', job_data = [(''emailId'', j)],
                                   job_delay = at - clock w, job_state = delayed\<rparr>)"
    using r fut g c by (simp add: defs)
  show "queue_jobs w j = Some b \<Longrightarrow> job_state b = completed \<Longrightarrow>
           fst (rescheduleEmailJob j at w) =
             Throw (new_Error ''Cannot reschedule a job that has already been completed'') \<and>
           queue_jobs (snd (rescheduleEmailJob j at w)) = queue_jobs w"
    using r fut g c by (simp add: defs)
  show "queue_jobs w j = Some b \<Longrightarrow> job_state b = active \<Longrightarrow>
           fst (rescheduleEmailJob j at w) =
             Throw (new_Error ''Cannot reschedule a job that is currently being processed'') \<and>
           queue_jobs (snd (rescheduleEmailJob j at w)) = queue_jobs w"
    using r fut g c by (simp add: defs)
  show "queue_jobs w j = Some b \<Longrightarrow> job_state b \<noteq> completed \<Longrightarrow> job_state b \<noteq> active \<Longrightarrow>
           fst (rescheduleEmailJob j at w) = Return j \<and>
           queue_jobs (snd (rescheduleEmailJob j at w)) =
             (queue_jobs w)(j \<mapsto> \<lparr>job_name = ''send-email'', job_data = [(''emailId'', j)],
                                   job_delay = at - clock w, job_state = delayed\<rparr>)"
    using r fut g c by (simp add: defs)
qed


lemma reschedule_future_effect:
  assumes e: "map_of (jobs w) j = Some e" and fut: "clock w < at"
  shows "fst (reschedule j at cb d w) = Return j"
    and "jobs (snd (reschedule j at cb d w)) =
           AList.update j \<lparr>timeout = next_timer w, jobData = d, callback = cb,
                            job_scheduledAt = at\<rparr> (AList.delete j (jobs w))"
    and "timers (snd (reschedule j at cb d w)) =
           AList.update (next_timer w)
             \<lparr>t_jobId = j, t_callback = cb, t_jobData = d, t_delay = at - clock w\<rparr>
             (AList.delete (timeout e) (timers w))"
    and "next_timer (snd (reschedule j at cb d w)) = Suc (next_timer w)"
proof -
  let ?c = "snd (cancel j w)"
  have c: "clock ?c = clock w" "next_timer ?c = next_timer w" "map_of (jobs ?c) j = None"
    "jobs ?c = AList.delete j (jobs w)" "timers ?c = AList.delete (timeout e) (timers w)"
    using e by (simp_all add: cancel_present delete_conv')
  have fut': "clock ?c < at" using fut c by simp
  show "fst (reschedule j at cb d w) = Return j"
    and "jobs (snd (reschedule j at cb d w)) =
           AList.update j \<lparr>timeout = next_timer w, jobData = d, callback = cb,
                            job_scheduledAt = at\<rparr> (AList.delete j (jobs w))"
    and "timers (snd (reschedule j at cb d w)) =
           AList.update (next_timer w)
             \<lparr>t_jobId = j, t_callback = cb, t_jobData = d, t_delay = at - clock w\<rparr>
             (AList.delete (timeout e) (timers w))"
    and "next_timer (snd (reschedule j at cb d w)) = Suc (next_timer w)"
    unfolding reschedule_eq schedule_future[OF fut']
    using c by (simp_all add: cancel_absent)
qed

lemma rescheduleEmailJob_memory:
  assumes m: "\<not> redis_enabled w"
  shows "fst (rescheduleEmailJob j at w) =
           (case fst (reschedule j at (ProcessEmailCb j) [(''emailId'', j)]
                   (w\<lparr>log := log w @ [(INFO, ''Rescheduling in-memory job: '' @ j)]\<rparr>)) of
              Return _ \<Rightarrow> Return j | Throw err \<Rightarrow> Throw err)"
    and "jobs (snd (rescheduleEmailJob j at w)) =
           jobs (snd (reschedule j at (ProcessEmailCb j) [(''emailId'', j)]
                   (w\<lparr>log := log w @ [(INFO, ''Rescheduling in-memory job: '' @ j)]\<rparr>)))"
    and "timers (snd (rescheduleEmailJob j at w)) =
           timers (snd (reschedule j at (ProcessEmailCb j) [(''emailId'', j)]
                   (w\<lparr>log := log w @ [(INFO, ''Rescheduling in-memory job: '' @ j)]\<rparr>)))"
    and "next_timer (snd (rescheduleEmailJob j at w)) =
           next_timer (snd (reschedule j at (ProcessEmailCb j) [(''emailId'', j)]
                   (w\<lparr>log := log w @ [(INFO, ''Rescheduling in-memory job: '' @ j)]\<rparr>)))"
proof -
  let ?w0 = "w\<lparr>log := log w @ [(INFO, ''Rescheduling in-memory job: '' @ j)]\<rparr>"
  obtain r w1 where r: "reschedule j at (ProcessEmailCb j) [(''emailId'', j)] ?w0 = (r, w1)"
    by (cases "reschedule j at (ProcessEmailCb j) [(''emailId'', j)] ?w0") auto
  show "fst (rescheduleEmailJob j at w) =
           (case fst (reschedule j at (ProcessEmailCb j) [(''emailId'', j)] ?w0) of
              Return _ \<Rightarrow> Return j | Throw err \<Rightarrow> Throw err)"
    and "jobs (snd (rescheduleEmailJob j at w)) =
           jobs (snd (reschedule j at (ProcessEmailCb j) [(''emailId'', j)] ?w0))"
    and "timers (snd (rescheduleEmailJob j at w)) =
           timers (snd (reschedule j at (ProcessEmailCb j) [(''emailId'', j)] ?w0))"
    and "next_timer (snd (rescheduleEmailJob j at w)) =
           next_timer (snd (reschedule j at (ProcessEmailCb j) [(''emailId'', j)] ?w0))"
    using m r by (cases r; simp add: rescheduleEmailJob_def js_defs)+
qed

lemma rescheduleEmailJob_memory_future:
  assumes m: "\<not> redis_enabled w" and e: "map_of (jobs w) j = Some e" and fut: "clock w < at"
  shows "fst (rescheduleEmailJob j at w) = Return j"
    and "jobs (snd (rescheduleEmailJob j at w)) =
           AList.update j \<lparr>timeout = next_timer w, jobData = [(''emailId'', j)],
                            callback = ProcessEmailCb j, job_scheduledAt = at\<rparr>
             (AList.delete j (jobs w))"
    and "timers (snd (rescheduleEmailJob j at w)) =
           AList.update (next_timer w)
             \<lparr>t_jobId = j, t_callback = ProcessEmailCb j, t_jobData = [(''emailId'', j)],
              t_delay = at - clock w\<rparr>
             (AList.delete (timeout e) (timers w))"
proof -
  let ?w0 = "w\<lparr>log := log w @ [(INFO, ''Rescheduling in-memory job: '' @ j)]\<rparr>"
  have e0: "map_of (jobs ?w0) j = Some e" and f0: "clock ?w0 < at" using e fut by simp_all
  show "fst (rescheduleEmailJob j at w) = Return j"
    and "jobs (snd (rescheduleEmailJob j at w)) =
           AList.update j \<lparr>timeout = next_timer w, jobData = [(''emailId'', j)],
                            callback = ProcessEmailCb j, job_scheduledAt = at\<rparr>
             (AList.delete j (jobs w))"
    and "timers (snd (rescheduleEmailJob j at w)) =
           AList.update (next_timer w)
             \<lparr>t_jobId = j, t_callback = ProcessEmailCb j, t_jobData = [(''emailId'', j)],
              t_delay = at - clock w\<rparr>
             (AList.delete (timeout e) (timers w))"
    using rescheduleEmailJob_memory[OF m, of j at]
      reschedule_future_effect[OF e0 f0, of "ProcessEmailCb j" "[(''emailId'', j)]"]
    by simp_all
qed

lemma rescheduleEmailJob_memory_armed_for:
  assumes m: "\<not> redis_enabled w" and inv: "sched_inv w" and e: "map_of (jobs w) j = Some e"
    and fut: "clock w < at"
  shows "armed_for j (snd (rescheduleEmailJob j at w)) =
           [(next_timer w,
             \<lparr>t_jobId = j, t_callback = ProcessEmailCb j, t_jobData = [(''emailId'', j)],
              t_delay = at - clock w\<rparr>)]"
proof -
  have t: "timers (snd (rescheduleEmailJob j at w)) =
             timers (snd (schedule j at (ProcessEmailCb j) [(''emailId'', j)] w))"
    using e fut
    by (simp add: rescheduleEmailJob_memory_future(3)[OF m e fut] schedule_future cancel_present)
  show ?thesis
    using schedule_armed_for[OF inv fut, of j "ProcessEmailCb j" "[(''emailId'', j)]"]
      armed_for_frame[OF t, of j] by simp
qed

lemma armed_timeout_fresh:
  assumes inv: "sched_inv w" and e: "map_of (jobs w) j = Some e"
  shows "timeout e < next_timer w"
  using inv[unfolded sched_inv_iff] e by blast

section \<open>Claims about rescheduling\<close>

text \<open>
  C6. Distributed mode, a time in the future, the queue's calls succeeding:
  \<open>rescheduleEmailJob\<close> goes by the job found under the id. None: a fresh job is added
  under the id and the id is returned. A completed job: the call throws
  \<open>Cannot reschedule a job that has already been completed\<close> and the queue is as it
  was. An active job: the call throws
  \<open>Cannot reschedule a job that is currently being processed\<close> and the queue is as it
  was. Any other state: the job is removed and a new one, delayed by the new delay, is
  added under the same id.
\<close>

theorem distributed_reschedule_by_job_state:
  "redis_enabled w \<and> quiet (redis_script w) \<and> clock w < at \<longrightarrow>
     (queue_jobs w j = None \<longrightarrow>
        fst (rescheduleEmailJob j at w) = Return j \<and>
        queue_jobs (snd (rescheduleEmailJob j at w)) =
          (queue_jobs w)(j \<mapsto> \<lparr>job_name = ''send-email'', job_data = [(''emailId'', j)],
                                job_delay = at - clock w, job_state = delayed\<rparr>)) \<and>
     (queue_jobs w j = Some b \<and> job_state b = completed \<longrightarrow>
        fst (rescheduleEmailJob j at w) =
          Throw (new_Error ''Cannot reschedule a job that has already been completed'') \<and>
        queue_jobs (snd (rescheduleEmailJob j at w)) = queue_jobs w) \<and>
     (queue_jobs w j = Some b \<and> job_state b = active \<longrightarrow>
        fst (rescheduleEmailJob j at w) =
          Throw (new_Error ''Cannot reschedule a job that is currently being processed'') \<and>
        queue_jobs (snd (rescheduleEmailJob j at w)) = queue_jobs w) \<and>
     (queue_jobs w j = Some b \<and> job_state b \<noteq> completed \<and> job_state b \<noteq> active \<longrightarrow>
        fst (rescheduleEmailJob j at w) = Return j \<and>
        queue_jobs (snd (rescheduleEmailJob j at w)) =
          (queue_jobs w)(j \<mapsto> \<lparr>job_name = ''send-email'', job_data = [(''emailId'', j)],
                                job_delay = at - clock w, job_state = delayed\<rparr>))"
  using rescheduleEmailJob_redis_future[of w at j] by blast

theorem distributed_reschedule_by_job_state_witness:
  "redis_enabled world_queued \<and> quiet (redis_script world_queued) \<and>
   clock world_queued < 3000 \<and>
   queue_jobs world_queued ''e2'' = None \<and>
   fst (rescheduleEmailJob ''e2'' 3000 world_queued) = Return ''e2'' \<and>
   queue_jobs (snd (rescheduleEmailJob ''e2'' 3000 world_queued)) ''e2'' =
     Some \<lparr>job_name = ''send-email'', job_data = [(''emailId'', ''e2'')], job_delay = 2000,
           job_state = delayed\<rparr> \<and>
   fst (rescheduleEmailJob ''e1'' 3000
         (world_queued\<lparr>queue_jobs := [''e1'' \<mapsto> example_bull_job\<lparr>job_state := completed\<rparr>]\<rparr>)) =
     Throw (new_Error ''Cannot reschedule a job that has already been completed'') \<and>
   queue_jobs (snd (rescheduleEmailJob ''e1'' 3000
         (world_queued\<lparr>queue_jobs := [''e1'' \<mapsto> example_bull_job\<lparr>job_state := completed\<rparr>]\<rparr>)))
     ''e1'' = Some (example_bull_job\<lparr>job_state := completed\<rparr>) \<and>
   fst (rescheduleEmailJob ''e1'' 3000
         (world_queued\<lparr>queue_jobs := [''e1'' \<mapsto> example_bull_job\<lparr>job_state := active\<rparr>]\<rparr>)) =
     Throw (new_Error ''Cannot reschedule a job that is currently being processed'') \<and>
   queue_jobs (snd (rescheduleEmailJob ''e1'' 3000
         (world_queued\<lparr>queue_jobs := [''e1'' \<mapsto> example_bull_job\<lparr>job_state := active\<rparr>]\<rparr>)))
     ''e1'' = Some (example_bull_job\<lparr>job_state := active\<rparr>) \<and>
   queue_jobs world_queued ''e1'' = Some example_bull_job \<and>
   job_state example_bull_job \<noteq> completed \<and> job_state example_bull_job \<noteq> active \<and>
   fst (rescheduleEmailJob ''e1'' 3000 world_queued) = Return ''e1'' \<and>
   queue_jobs (snd (rescheduleEmailJob ''e1'' 3000 world_queued)) ''e1'' =
     Some \<lparr>job_name = ''send-email'', job_data = [(''emailId'', ''e1'')], job_delay = 2000,
           job_state = delayed\<rparr>"
  using distributed_reschedule_by_job_state[of world_queued 3000 "''e2''" example_bull_job]
    distributed_reschedule_by_job_state[of "world_queued\<lparr>queue_jobs := [''e1'' \<mapsto> example_bull_job\<lparr>job_state := completed\<rparr>]\<rparr>"
          3000 "''e1''" "example_bull_job\<lparr>job_state := completed\<rparr>"]
    distributed_reschedule_by_job_state[of "world_queued\<lparr>queue_jobs := [''e1'' \<mapsto> example_bull_job\<lparr>job_state := active\<rparr>]\<rparr>"
          3000 "''e1''" "example_bull_job\<lparr>job_state := active\<rparr>"]
    distributed_reschedule_by_job_state[of world_queued 3000 "''e1''" example_bull_job]
  by (simp add: example_defs quiet_def)

text \<open>
  C7. Rescheduling an armed job to a time in the future returns the job id it was given.
  In-memory mode (map and timers in agreement): the map holds the job id with the new
  time, the one timer armed for the job id is the new one, with the delay to the new
  time, the timer armed before is disarmed, and every other entry of the map is as it
  was; an entry made by the facade differs from the old one in its timer handle and its
  time only. Distributed mode (the queue's calls succeeding): the queue holds a delayed
  job under the same id with the new delay, and a delayed job made by the facade differs
  from the old one in its delay only.
\<close>

theorem reschedule_keeps_job_id_and_moves_due_time:
  "(\<not> redis_enabled w \<and> sched_inv w \<and> map_of (jobs w) j = Some e \<and> clock w < at \<longrightarrow>
      fst (rescheduleEmailJob j at w) = Return j \<and>
      map_of (jobs (snd (rescheduleEmailJob j at w))) j =
        Some \<lparr>timeout = next_timer w, jobData = [(''emailId'', j)], callback = ProcessEmailCb j,
              job_scheduledAt = at\<rparr> \<and>
      (callback e = ProcessEmailCb j \<and> jobData e = [(''emailId'', j)] \<longrightarrow>
         map_of (jobs (snd (rescheduleEmailJob j at w))) j =
           Some (e\<lparr>timeout := next_timer w, job_scheduledAt := at\<rparr>)) \<and>
      armed_for j (snd (rescheduleEmailJob j at w)) =
        [(next_timer w,
          \<lparr>t_jobId = j, t_callback = ProcessEmailCb j, t_jobData = [(''emailId'', j)],
           t_delay = at - clock w\<rparr>)] \<and>
      map_of (timers (snd (rescheduleEmailJob j at w))) (timeout e) = None \<and>
      (\<forall>k. k \<noteq> j \<longrightarrow>
         map_of (jobs (snd (rescheduleEmailJob j at w))) k = map_of (jobs w) k)) \<and>
   (redis_enabled w \<and> quiet (redis_script w) \<and> clock w < at \<and> queue_jobs w j = Some b \<and>
    job_state b \<noteq> completed \<and> job_state b \<noteq> active \<longrightarrow>
      fst (rescheduleEmailJob j at w) = Return j \<and>
      queue_jobs (snd (rescheduleEmailJob j at w)) =
        (queue_jobs w)(j \<mapsto> \<lparr>job_name = ''send-email'', job_data = [(''emailId'', j)],
                              job_delay = at - clock w, job_state = delayed\<rparr>) \<and>
      (job_name b = ''send-email'' \<and> job_data b = [(''emailId'', j)] \<and> job_state b = delayed \<longrightarrow>
         queue_jobs (snd (rescheduleEmailJob j at w)) =
           (queue_jobs w)(j \<mapsto> b\<lparr>job_delay := at - clock w\<rparr>)))"
proof (intro conjI impI allI)
  assume h: "\<not> redis_enabled w \<and> sched_inv w \<and> map_of (jobs w) j = Some e \<and> clock w < at"
  then have m: "\<not> redis_enabled w" and inv: "sched_inv w" and e: "map_of (jobs w) j = Some e"
    and fut: "clock w < at" by simp_all
  note eff = rescheduleEmailJob_memory_future[OF m e fut]
  show "fst (rescheduleEmailJob j at w) = Return j" by (rule eff(1))
  show "map_of (jobs (snd (rescheduleEmailJob j at w))) j =
        Some \<lparr>timeout = next_timer w, jobData = [(''emailId'', j)], callback = ProcessEmailCb j,
              job_scheduledAt = at\<rparr>"
    by (simp add: eff(2) update_conv')
  show "map_of (jobs (snd (rescheduleEmailJob j at w))) j =
           Some (e\<lparr>timeout := next_timer w, job_scheduledAt := at\<rparr>)"
    if "callback e = ProcessEmailCb j \<and> jobData e = [(''emailId'', j)]"
    using that by (cases e) (simp add: eff(2) update_conv')
  show "armed_for j (snd (rescheduleEmailJob j at w)) =
        [(next_timer w,
          \<lparr>t_jobId = j, t_callback = ProcessEmailCb j, t_jobData = [(''emailId'', j)],
           t_delay = at - clock w\<rparr>)]"
    by (rule rescheduleEmailJob_memory_armed_for[OF m inv e fut])
  show "map_of (timers (snd (rescheduleEmailJob j at w))) (timeout e) = None"
    using armed_timeout_fresh[OF inv e] by (simp add: eff(3) update_conv' delete_conv')
  show "map_of (jobs (snd (rescheduleEmailJob j at w))) k = map_of (jobs w) k" if "k \<noteq> j" for k
    using that by (simp add: eff(2) update_conv' delete_conv')
next
  assume h: "redis_enabled w \<and> quiet (redis_script w) \<and> clock w < at \<and> queue_jobs w j = Some b \<and>
    job_state b \<noteq> completed \<and> job_state b \<noteq> active"
  then have r: "redis_enabled w" and q: "quiet (redis_script w)" and fut: "clock w < at"
    and b: "queue_jobs w j = Some b" "job_state b \<noteq> completed" "job_state b \<noteq> active"
    by simp_all
  note eff = rescheduleEmailJob_redis_future(4)[OF r q fut b]
  show "fst (rescheduleEmailJob j at w) = Return j" using eff by simp
  show "queue_jobs (snd (rescheduleEmailJob j at w)) =
        (queue_jobs w)(j \<mapsto> \<lparr>job_name = ''send-email'', job_data = [(''emailId'', j)],
                              job_delay = at - clock w, job_state = delayed\<rparr>)"
    using eff by simp
  show "queue_jobs (snd (rescheduleEmailJob j at w)) =
           (queue_jobs w)(j \<mapsto> b\<lparr>job_delay := at - clock w\<rparr>)"
    if "job_name b = ''send-email'' \<and> job_data b = [(''emailId'', j)] \<and> job_state b = delayed"
    using eff that by (cases b) simp
qed

theorem reschedule_keeps_job_id_and_moves_due_time_witness:
  "\<not> redis_enabled world_armed \<and> sched_inv world_armed \<and>
   map_of (jobs world_armed) ''e1'' =
     Some \<lparr>timeout = 0, jobData = [(''emailId'', ''e1'')], callback = ProcessEmailCb ''e1'',
           job_scheduledAt = 2000\<rparr> \<and>
   clock world_armed < 3000 \<and>
   fst (rescheduleEmailJob ''e1'' 3000 world_armed) = Return ''e1'' \<and>
   map_of (jobs (snd (rescheduleEmailJob ''e1'' 3000 world_armed))) ''e1'' =
     Some \<lparr>timeout = 1, jobData = [(''emailId'', ''e1'')], callback = ProcessEmailCb ''e1'',
           job_scheduledAt = 3000\<rparr> \<and>
   armed_for ''e1'' (snd (rescheduleEmailJob ''e1'' 3000 world_armed)) =
     [(1, \<lparr>t_jobId = ''e1'', t_callback = ProcessEmailCb ''e1'',
           t_jobData = [(''emailId'', ''e1'')], t_delay = 2000\<rparr>)] \<and>
   map_of (timers (snd (rescheduleEmailJob ''e1'' 3000 world_armed))) 0 = None \<and>
   redis_enabled world_queued \<and> quiet (redis_script world_queued) \<and>
   queue_jobs world_queued ''e1'' = Some example_bull_job \<and>
   fst (rescheduleEmailJob ''e1'' 3000 world_queued) = Return ''e1'' \<and>
   queue_jobs (snd (rescheduleEmailJob ''e1'' 3000 world_queued)) ''e1'' =
     Some (example_bull_job\<lparr>job_delay := 2000\<rparr>)"
  using reschedule_keeps_job_id_and_moves_due_time[of world_armed "''e1''"
           "\<lparr>timeout = 0, jobData = [(''emailId'', ''e1'')], callback = ProcessEmailCb ''e1'',
             job_scheduledAt = 2000\<rparr>" 3000 example_bull_job]
    reschedule_keeps_job_id_and_moves_due_time[of world_queued "''e1''"
           "\<lparr>timeout = 0, jobData = [(''emailId'', ''e1'')], callback = ProcessEmailCb ''e1'',
             job_scheduledAt = 2000\<rparr>" 3000 example_bull_job]
  by (simp add: example_defs quiet_def sched_inv_def)

section \<open>The update path\<close>






















section \<open>Claims about updating an email\<close>



end
